theory Spec2Isabelle
  imports Main
begin

section \<open>JavaScript strings and numbers\<close>

text \<open>
  The handlers work on JavaScript strings. A string is modelled as a \<^typ>\<open>string\<close>; the
  built-in methods the handlers call (\<open>trim\<close>, \<open>indexOf\<close>, \<open>split\<close>, \<open>replace\<close>, \<open>join\<close>)
  are written out below as ECMAScript defines them for a string separator or pattern.
\<close>

definition isWhiteSpace :: "char \<Rightarrow> bool" where
  \<comment> \<open>WhiteSpace and LineTerminator code units below 256: TAB, LF, VT, FF, CR, SP, NBSP.\<close>
  "isWhiteSpace c \<longleftrightarrow> of_char c \<in> {9, 10, 11, 12, 13, 32, 160 :: nat}"

definition trim :: "string \<Rightarrow> string" where
  "trim s = rev (dropWhile isWhiteSpace (rev (dropWhile isWhiteSpace s)))"

definition startsWith :: "string \<Rightarrow> string \<Rightarrow> bool" where
  "startsWith s pat \<longleftrightarrow> take (length pat) s = pat"

fun indexOf :: "string \<Rightarrow> string \<Rightarrow> nat option" where
  \<comment> \<open>\<open>s.indexOf(pat)\<close>, with \<open>None\<close> for \<open>-1\<close>.\<close>
  "indexOf [] pat = (if pat = [] then Some 0 else None)"
| "indexOf (c # s) pat =
     (if startsWith (c # s) pat then Some 0 else map_option Suc (indexOf s pat))"

fun splitFrom :: "string \<Rightarrow> string \<Rightarrow> string \<Rightarrow> string list" where
  \<comment> \<open>The scan of \<open>String.prototype.split\<close>: \<open>acc\<close> holds, reversed, the code units read
      since the last match; a match of the separator closes the current piece.\<close>
  "splitFrom sep acc [] = [rev acc]"
| "splitFrom sep acc (c # s) =
     (if sep \<noteq> [] \<and> startsWith (c # s) sep
      then rev acc # splitFrom sep [] (drop (length sep) (c # s))
      else splitFrom sep (c # acc) s)"

definition split :: "string \<Rightarrow> string \<Rightarrow> string list" where
  \<comment> \<open>\<open>s.split(sep)\<close>; an empty separator splits into single code units.\<close>
  "split s sep = (if sep = [] then map (\<lambda>c. [c]) s else splitFrom sep [] s)"

definition replace :: "string \<Rightarrow> string \<Rightarrow> string \<Rightarrow> string" where
  \<comment> \<open>\<open>s.replace(pat, new)\<close> for a string pattern and a replacement without \<open>$\<close>: only the
      first occurrence is replaced, and a string without occurrence is returned as it is.\<close>
  "replace s pat new =
     (case indexOf s pat of
        None \<Rightarrow> s
      | Some i \<Rightarrow> take i s @ new @ drop (i + length pat) s)"

fun join :: "string list \<Rightarrow> string \<Rightarrow> string" where
  "join [] sep = []"
| "join [x] sep = x"
| "join (x # y # ys) sep = x @ sep @ join (y # ys) sep"

text \<open>
  A JavaScript number is a double. The model tracks \<open>NaN\<close> and the integers of magnitude
  up to \<open>2^54\<close> that a double holds: every integer up to \<open>2^53\<close>, and the even ones above.
  An integer result in that range is rounded to the nearest of them, a tie to the one that
  is a multiple of four (round half to even). Every other double (a fraction, an infinity, a
  larger magnitude) is \<open>Untracked\<close>: the model knows that it is a number other than \<open>NaN\<close>
  when it comes out of a conversion, and nothing else about it. Up to \<open>2^54\<close> the string of
  an integer double is its decimal digits.
\<close>

datatype jsnum = NaN | Num int | Untracked

definition isNaN :: "jsnum \<Rightarrow> bool" where
  "isNaN x \<longleftrightarrow> x = NaN"

definition asDouble :: "int \<Rightarrow> jsnum" where
  \<comment> \<open>The double nearest to an integer.\<close>
  "asDouble n =
     (if \<bar>n\<bar> \<le> 2 ^ 53 then Num n
      else if \<bar>n\<bar> \<le> 2 ^ 54
      then Num (if even n then n else if (n + 1) mod 4 = 0 then n + 1 else n - 1)
      else Untracked)"

fun jsAdd :: "jsnum \<Rightarrow> jsnum \<Rightarrow> jsnum" where
  \<comment> \<open>\<open>x + y\<close> on numbers. The sum of two untracked numbers is untracked (it may even be
      \<open>NaN\<close>, for opposite infinities).\<close>
  "jsAdd NaN y = NaN"
| "jsAdd x NaN = NaN"
| "jsAdd (Num a) (Num b) = asDouble (a + b)"
| "jsAdd x y = Untracked"

definition isDigit :: "char \<Rightarrow> bool" where
  "isDigit c \<longleftrightarrow> 48 \<le> (of_char c :: nat) \<and> (of_char c :: nat) \<le> 57"

definition digitOf :: "char \<Rightarrow> nat option" where
  \<comment> \<open>The value of a digit in any radix up to 16.\<close>
  "digitOf c =
     (let n = (of_char c :: nat) in
      if 48 \<le> n \<and> n \<le> 57 then Some (n - 48)
      else if 97 \<le> n \<and> n \<le> 102 then Some (n - 87)
      else if 65 \<le> n \<and> n \<le> 70 then Some (n - 55)
      else None)"

definition isRadixDigit :: "nat \<Rightarrow> char \<Rightarrow> bool" where
  "isRadixDigit r c \<longleftrightarrow> (case digitOf c of None \<Rightarrow> False | Some d \<Rightarrow> d < r)"

definition radixValue :: "nat \<Rightarrow> string \<Rightarrow> nat" where
  "radixValue r ds = foldl (\<lambda>n c. r * n + (case digitOf c of None \<Rightarrow> 0 | Some d \<Rightarrow> d)) 0 ds"

definition radixLiteral :: "nat \<Rightarrow> string \<Rightarrow> jsnum" where
  \<comment> \<open>The digits after \<open>0x\<close>, \<open>0o\<close> or \<open>0b\<close>: at least one, all of the radix.\<close>
  "radixLiteral r ds =
     (if ds \<noteq> [] \<and> list_all (isRadixDigit r) ds then asDouble (int (radixValue r ds)) else NaN)"

definition exponentPart :: "string \<Rightarrow> bool" where
  \<comment> \<open>\<open>e\<close> or \<open>E\<close>, an optional sign, at least one digit, and nothing else.\<close>
  "exponentPart s =
     (case s of
        [] \<Rightarrow> False
      | e # r \<Rightarrow>
          (e = CHR ''e'' \<or> e = CHR ''E'') \<and>
          (let ds = (case r of
                       [] \<Rightarrow> []
                     | g # r' \<Rightarrow> if g = CHR ''+'' \<or> g = CHR ''-'' then r' else r)
           in ds \<noteq> [] \<and> list_all isDigit ds))"

definition exponentValue :: "string \<Rightarrow> int" where
  \<comment> \<open>The value of an exponent part, \<open>0\<close> for none.\<close>
  "exponentValue s =
     (case s of
        [] \<Rightarrow> 0
      | e # r \<Rightarrow>
          (case r of
             [] \<Rightarrow> 0
           | g # r' \<Rightarrow>
               if g = CHR ''-'' then - int (radixValue 10 r')
               else if g = CHR ''+'' then int (radixValue 10 r')
               else int (radixValue 10 r)))"

definition scaled :: "int \<Rightarrow> int \<Rightarrow> jsnum" where
  \<comment> \<open>\<open>m\<close> times ten to the \<open>k\<close>: the nearest double where that is an integer.\<close>
  "scaled m k =
     (if 0 \<le> k then asDouble (m * 10 ^ nat k)
      else if m mod 10 ^ nat (- k) = 0 then asDouble (m div 10 ^ nat (- k))
      else Untracked)"

definition unsignedDecimal :: "string \<Rightarrow> jsnum" where
  \<comment> \<open>StrUnsignedDecimalLiteral: \<open>Infinity\<close>, or digits with an optional fraction and an
      optional exponent. A literal without fraction point has a tracked value where that
      value is an integer.\<close>
  "unsignedDecimal s =
     (if s = ''Infinity'' then Untracked
      else
        let ip = takeWhile isDigit s;
            r1 = dropWhile isDigit s;
            dot = (r1 \<noteq> [] \<and> hd r1 = CHR ''.'');
            fp = (if dot then takeWhile isDigit (tl r1) else []);
            r2 = (if dot then dropWhile isDigit (tl r1) else r1)
        in if ip = [] \<and> fp = [] then NaN
           else if r2 \<noteq> [] \<and> \<not> exponentPart r2 then NaN
           else if \<not> dot then scaled (int (radixValue 10 ip)) (exponentValue r2)
           else Untracked)"

fun negate :: "jsnum \<Rightarrow> jsnum" where
  "negate (Num n) = Num (- n)"
| "negate x = x"

definition toNumber :: "string \<Rightarrow> jsnum" where
  \<comment> \<open>The unary \<open>+\<close> of the source on a string (StringToNumber): surrounding white space is
      dropped, the empty string is \<open>0\<close>, a sign is allowed before a decimal literal only.\<close>
  "toNumber str =
     (let s = trim str in
      case s of
        [] \<Rightarrow> Num 0
      | c # r \<Rightarrow>
          if c = CHR ''+'' then unsignedDecimal r
          else if c = CHR ''-'' then negate (unsignedDecimal r)
          else if c = CHR ''0'' \<and> r \<noteq> [] \<and> hd r \<in> {CHR ''x'', CHR ''X''} then radixLiteral 16 (tl r)
          else if c = CHR ''0'' \<and> r \<noteq> [] \<and> hd r \<in> {CHR ''o'', CHR ''O''} then radixLiteral 8 (tl r)
          else if c = CHR ''0'' \<and> r \<noteq> [] \<and> hd r \<in> {CHR ''b'', CHR ''B''} then radixLiteral 2 (tl r)
          else unsignedDecimal s)"

fun showNat :: "nat \<Rightarrow> string" where
  "showNat n =
     (if n < 10 then [''0123456789'' ! n]
      else showNat (n div 10) @ [''0123456789'' ! (n mod 10)])"

definition showInt :: "int \<Rightarrow> string" where
  "showInt n = (if n < 0 then CHR ''-'' # showNat (nat (- n)) else showNat (nat n))"

fun numberToString :: "jsnum \<Rightarrow> string option" where
  \<comment> \<open>The string of a number, as \<open>join\<close> builds it; \<open>None\<close> where the number is untracked.\<close>
  "numberToString NaN = Some ''NaN''"
| "numberToString (Num n) = Some (showInt n)"
| "numberToString Untracked = None"

section \<open>BaseHandler: version aggregation\<close>

text \<open>
  \<^verbatim>\<open>
  static _aggregateVersions(versions, errorRoot, base = '0.0.0') {
    return versions
      .reduce((result, version) => {
        const parts = version.split('.')
        if (parts.length !== 3 || parts.some(part => isNaN(+part))) throw new Error(`${errorRoot}: ${version}`)
        for (let i = 0; i < 3; i++) result[i] += +parts[i]
        return result
      }, base.split('.').map(n => +n))
      .join('.')
  }
  \<close>
  An outcome is the message of the thrown error, the returned string, or a return whose
  digits the model does not track.
\<close>

datatype outcome = Threw string | Returned string | ReturnedUntracked

definition plusAssignAt :: "jsnum list \<Rightarrow> nat \<Rightarrow> jsnum \<Rightarrow> jsnum list" where
  \<comment> \<open>\<open>result[i] += x\<close>. Inside the array the slot is updated. One past the end the read gives
      \<open>undefined\<close>, \<open>undefined + x\<close> is \<open>NaN\<close>, and the write extends the array by that slot.
      The loop counts up from \<open>0\<close>, so it never writes further out.\<close>
  "plusAssignAt result i x =
     (if i < length result then result[i := jsAdd (result ! i) x] else result @ [NaN])"

definition addParts :: "jsnum list \<Rightarrow> string list \<Rightarrow> jsnum list" where
  \<comment> \<open>\<open>for (let i = 0; i < 3; i++) result[i] += +parts[i]\<close>, entered with three parts.\<close>
  "addParts result parts =
     foldl (\<lambda>res i. plusAssignAt res i (toNumber (parts ! i))) result [0, 1, 2]"

fun reduceVersions :: "string \<Rightarrow> jsnum list \<Rightarrow> string list \<Rightarrow> string + jsnum list" where
  "reduceVersions errorRoot result [] = Inr result"
| "reduceVersions errorRoot result (version # versions) =
     (let parts = split version ''.'' in
      if length parts \<noteq> 3 \<or> list_ex (\<lambda>part. isNaN (toNumber part)) parts
      then Inl (errorRoot @ '': '' @ version)
      else reduceVersions errorRoot (addParts result parts) versions)"

definition aggregateVersions :: "string list \<Rightarrow> string \<Rightarrow> string \<Rightarrow> outcome" where
  "aggregateVersions versions errorRoot base =
     (case reduceVersions errorRoot (map toNumber (split base ''.'')) versions of
        Inl message \<Rightarrow> Threw message
      | Inr result \<Rightarrow>
          (if list_all (\<lambda>n. numberToString n \<noteq> None) result
           then Returned (join (map (\<lambda>n. the (numberToString n)) result) ''.'')
           else ReturnedUntracked))"

text \<open>
  The notions the statements about \<open>_aggregateVersions\<close> use. A version is valid when it
  passes the check of the source; it is an integer version when its three parts convert to
  tracked integers, of either sign. \<open>column i\<close> adds up the \<open>i\<close>-th components of a list of
  versions, \<open>absColumn i\<close> their absolute values.
\<close>

definition validVersion :: "string \<Rightarrow> bool" where
  "validVersion v \<longleftrightarrow>
     length (split v ''.'') = 3 \<and> list_all (\<lambda>part. \<not> isNaN (toNumber part)) (split v ''.'')"

definition integerVersion :: "string \<Rightarrow> bool" where
  "integerVersion v \<longleftrightarrow>
     (\<exists>a b c. map toNumber (split v ''.'') = [Num a, Num b, Num c])"

definition component :: "nat \<Rightarrow> string \<Rightarrow> int" where
  "component i v = (case map toNumber (split v ''.'') ! i of Num n \<Rightarrow> n | _ \<Rightarrow> 0)"

definition column :: "nat \<Rightarrow> string list \<Rightarrow> int" where
  "column i vs = sum_list (map (component i) vs)"

definition absColumn :: "nat \<Rightarrow> string list \<Rightarrow> int" where
  "absColumn i vs = sum_list (map (\<lambda>v. \<bar>component i v\<bar>) vs)"

section \<open>Identities, requests and errors\<close>

text \<open>
  The errors the handlers raise: a TypeError (a method called on \<open>undefined\<close>, a version
  the semver package rejects), the error of reading a file that is not there, the error of
  the XML parser, and the failure of a download with a status other than "not found".
\<close>

datatype error = TypeError | FileNotFound | ParseError | FetchError

text \<open>
  Modelled from the spec: the class \<open>EntitySpec\<close> (\<open>lib/entitySpec.js\<close>) is not among the
  sources. An identity has the seven fields the specification lists; \<open>null\<close> is \<open>None\<close>.
  The constructor call of the source passes six arguments and leaves \<open>toolVersion\<close> unset.
  The serialisation \<open>toUrn\<close> is outside the model: the handlers take it as a parameter.
\<close>

record entitySpec =
  type :: string
  provider :: string
  namespace :: "string option"
  name :: string
  revision :: "string option"
  tool :: "string option"
  toolVersion :: "string option"

definition EntitySpec ::
  "string \<Rightarrow> string \<Rightarrow> string option \<Rightarrow> string \<Rightarrow> string option \<Rightarrow> string option \<Rightarrow> entitySpec" where
  "EntitySpec t p ns n r tn =
     \<lparr>type = t, provider = p, namespace = ns, name = n, revision = r, tool = tn,
      toolVersion = None\<rparr>"

text \<open>
  The request of the crawler (package ghcrawler) carries its type and URL, an optional
  identity in the casing of the registry, and the links the handlers add. A link is a
  resource link under a name, the link to the collection of siblings, or a collection link
  under a name; the model keeps them in the order in which they were added.
\<close>

datatype edge = Resource string string | Siblings string | Collection string string

record request =
  rtype :: string
  url :: string
  casedSpec :: "entitySpec option"
  links :: "edge list"

definition Request :: "string \<Rightarrow> string \<Rightarrow> request" where
  \<comment> \<open>\<open>new Request(type, url)\<close>: a value, queued nowhere by its construction.\<close>
  "Request kind target = \<lparr>rtype = kind, url = target, casedSpec = None, links = []\<rparr>"

definition linkResource :: "request \<Rightarrow> string \<Rightarrow> string \<Rightarrow> request" where
  "linkResource req label urn = req\<lparr>links := links req @ [Resource label urn]\<rparr>"

definition linkSiblings :: "request \<Rightarrow> string \<Rightarrow> request" where
  "linkSiblings req urn = req\<lparr>links := links req @ [Siblings urn]\<rparr>"

fun truthy :: "string option \<Rightarrow> bool" where
  \<comment> \<open>The truth value of a string, \<open>null\<close> or \<open>undefined\<close>: only a non-empty string is true.\<close>
  "truthy None = False"
| "truthy (Some s) = (s \<noteq> [])"

section \<open>DockerExtract: embedded components\<close>

text \<open>
  The fetcher stores two listings on the document of a container image: \<open>apk\<close>, an object
  with the output of \<open>apk info\<close> (\<open>names\<close>) and of \<open>apk info -v\<close> (\<open>namesAndVersions\<close>), and
  \<open>dpkg\<close>, one \<open>name___version\<close> record per line. Either is \<open>null\<close> when the tool is not in
  the image. The extractor turns every entry into the URL of an embedded component.

  The state of the extractor is the document and the queue of the crawler. The queue is
  where \<open>request.crawler.queue\<close> would put a follow-on request; both calls are commented out
  in the source, which builds the \<open>Request\<close> object and drops it.
\<close>

record apkListing =
  names :: string
  namesAndVersions :: string

record document =
  apk :: "apkListing option"
  dpkg :: "string option"
  embedded :: "string list"

record processing =
  document :: document
  queue :: "request list"

definition newline :: string where
  "newline = [CHR 0x0A]"

text \<open>
  Modelled from the spec: \<open>addEmbeddedComponent\<close> belongs to AbstractClearlyDefinedProcessor,
  which is not among the sources. It receives the document and the URL only, and records
  one collection-member edge from the document to the component at that URL.
\<close>

definition addEmbeddedComponent :: "document \<Rightarrow> string \<Rightarrow> document" where
  "addEmbeddedComponent doc target = doc\<lparr>embedded := embedded doc @ [target]\<rparr>"

fun template :: "string option \<Rightarrow> string" where
  \<comment> \<open>\<open>${x}\<close> in a template literal, for a string or \<open>undefined\<close>.\<close>
  "template None = ''undefined''"
| "template (Some s) = s"

fun destructure :: "string list \<Rightarrow> string option \<times> string option" where
  \<comment> \<open>\<open>let [name, version] = parts\<close>: the first two elements, \<open>undefined\<close> where missing.\<close>
  "destructure [] = (None, None)"
| "destructure [x] = (Some x, None)"
| "destructure (x # y # rest) = (Some x, Some y)"

definition dpkgPair :: "string \<Rightarrow> string option \<times> string option" where
  "dpkgPair line = destructure (split line ''___'')"

definition dpkgStep :: "processing \<Rightarrow> string \<Rightarrow> processing" where
  \<comment> \<open>The body of the loop of \<open>_queueDpkgs\<close>.\<close>
  "dpkgStep st line =
     (let (pname, version) = dpkgPair line;
          target = ''cd:/dpkg/dpkg/-/'' @ template pname @ ''/'' @ template version;
          doc = addEmbeddedComponent (document st) target;
          request = Request ''dpkg'' target
      in st\<lparr>document := doc\<rparr>)"

definition queueDpkgs :: "processing \<Rightarrow> processing" where
  \<comment> \<open>\<open>_queueDpkgs(document)\<close>. \<open>!document.dpkg\<close> holds for \<open>null\<close> and for the empty string.\<close>
  "queueDpkgs st =
     (case dpkg (document st) of
        None \<Rightarrow> st
      | Some listing \<Rightarrow>
          if listing = [] then st
          else foldl dpkgStep st (split listing newline))"

definition apkStep :: "string list \<Rightarrow> string list \<Rightarrow> nat \<Rightarrow> processing \<Rightarrow> error + processing" where
  \<comment> \<open>The body of the loop of \<open>_queueApks\<close> at index \<open>i\<close>, which is inside \<open>apkNameList\<close>.
      Outside \<open>apkNameAndVersionList\<close> the read gives \<open>undefined\<close> and \<open>.replace\<close> on it
      throws a TypeError.\<close>
  "apkStep apkNameList apkNameAndVersionList i st =
     (let pname = apkNameList ! i in
      if i < length apkNameAndVersionList
      then
        let version = replace (apkNameAndVersionList ! i) (pname @ ''-'') [];
            target = ''cd:/apk/apk/-/'' @ pname @ ''/'' @ version;
            doc = addEmbeddedComponent (document st) target;
            request = Request ''apk'' target
        in Inr (st\<lparr>document := doc\<rparr>)
      else Inl TypeError)"

fun forIndices :: "(nat \<Rightarrow> processing \<Rightarrow> error + processing) \<Rightarrow> nat list \<Rightarrow> processing
    \<Rightarrow> error + processing" where
  \<comment> \<open>A \<open>for\<close> loop over the given indices; a throw in the body leaves the loop.\<close>
  "forIndices body [] st = Inr st"
| "forIndices body (i # rest) st =
     (case body i st of Inl e \<Rightarrow> Inl e | Inr st' \<Rightarrow> forIndices body rest st')"

definition queueApks :: "processing \<Rightarrow> error + processing" where
  \<comment> \<open>\<open>_queueApks(document)\<close>.\<close>
  "queueApks st =
     (case apk (document st) of
        None \<Rightarrow> Inr st
      | Some listing \<Rightarrow>
          let apkNameList = split (names listing) newline;
              apkNameAndVersionList = split (namesAndVersions listing) newline
          in forIndices (apkStep apkNameList apkNameAndVersionList)
               [0 ..< length apkNameList] st)"

text \<open>
  The component URL the claims about the listings speak of, and the document the
  examples start from.
\<close>

definition dpkgUrl :: "string \<Rightarrow> string" where
  "dpkgUrl line =
     ''cd:/dpkg/dpkg/-/'' @ template (fst (dpkgPair line)) @ ''/'' @ template (snd (dpkgPair line))"

definition apkUrl :: "string \<Rightarrow> string \<Rightarrow> string" where
  "apkUrl pname version = ''cd:/apk/apk/-/'' @ pname @ ''/'' @ version"

definition apkExample :: processing where
  "apkExample =
     \<lparr>document = \<lparr>apk = Some \<lparr>names = ''a'' @ newline @ ''b'',
                                 namesAndVersions = ''a-1.0'' @ newline @ ''b-2.0''\<rparr>,
                   dpkg = None, embedded = []\<rparr>,
      queue = []\<rparr>"

section \<open>The semver package\<close>

text \<open>
  \<open>getLatestVersion\<close> calls \<open>semver.prerelease\<close> and \<open>semver.gt\<close> of the package semver, in
  its strict mode. The model follows the package: a version is an optional \<open>v\<close>, three
  numeric identifiers without leading zeros, an optional pre-release after \<open>-\<close> and optional
  build metadata after \<open>+\<close>, both lists of identifiers separated by dots. \<open>parse\<close> matches
  the string as it is; the constructor \<open>SemVer\<close> behind \<open>gt\<close> trims it first and throws a
  TypeError where it does not match. A numeric pre-release identifier is compared by value
  (the package converts it to a double, which differs from the value above \<open>2^53\<close> only).
\<close>

datatype ident = Numeric nat | Alphanumeric string

record semver =
  major :: nat
  minor :: nat
  patch :: nat
  pre :: "ident list"
  build :: "string list"

definition MAX_LENGTH :: nat where
  "MAX_LENGTH = 256"

definition MAX_SAFE_INTEGER :: int where
  "MAX_SAFE_INTEGER = 9007199254740991"

definition isIdentifierChar :: "char \<Rightarrow> bool" where
  \<comment> \<open>\<open>[0-9A-Za-z-]\<close>\<close>
  "isIdentifierChar c \<longleftrightarrow>
     (let n = (of_char c :: nat) in
      (48 \<le> n \<and> n \<le> 57) \<or> (65 \<le> n \<and> n \<le> 90) \<or> (97 \<le> n \<and> n \<le> 122) \<or> n = 45)"

definition isNumericIdentifier :: "string \<Rightarrow> bool" where
  \<comment> \<open>\<open>0|[1-9]\d*\<close>\<close>
  "isNumericIdentifier s \<longleftrightarrow> s \<noteq> [] \<and> list_all isDigit s \<and> (s = ''0'' \<or> hd s \<noteq> CHR ''0'')"

definition isPrereleaseIdentifier :: "string \<Rightarrow> bool" where
  \<comment> \<open>\<open>0|[1-9]\d*|\d*[a-zA-Z-][a-zA-Z0-9-]*\<close>\<close>
  "isPrereleaseIdentifier s \<longleftrightarrow>
     s \<noteq> [] \<and> list_all isIdentifierChar s \<and> (list_all isDigit s \<longrightarrow> isNumericIdentifier s)"

definition isBuildIdentifier :: "string \<Rightarrow> bool" where
  \<comment> \<open>\<open>[0-9A-Za-z-]+\<close>\<close>
  "isBuildIdentifier s \<longleftrightarrow> s \<noteq> [] \<and> list_all isIdentifierChar s"

definition toIdentifier :: "string \<Rightarrow> ident" where
  "toIdentifier s = (if list_all isDigit s then Numeric (radixValue 10 s) else Alphanumeric s)"

definition matchFull :: "string \<Rightarrow> semver option" where
  \<comment> \<open>The regular expression \<open>FULL\<close>. Build metadata starts at the first \<open>+\<close>, the
      pre-release at the first \<open>-\<close> before it; neither character can stand elsewhere.\<close>
  "matchFull str =
     (let s = (if str \<noteq> [] \<and> hd str = CHR ''v'' then tl str else str);
          (front, buildIds) =
             (case indexOf s ''+'' of
                None \<Rightarrow> (s, Some [])
              | Some i \<Rightarrow>
                  (take i s,
                   let ids = split (drop (Suc i) s) ''.''
                   in if list_all isBuildIdentifier ids then Some ids else None));
          (main, preIds) =
             (case indexOf front ''-'' of
                None \<Rightarrow> (front, Some [])
              | Some i \<Rightarrow>
                  (take i front,
                   let ids = split (drop (Suc i) front) ''.''
                   in if list_all isPrereleaseIdentifier ids then Some ids else None));
          nums = split main ''.''
      in case (buildIds, preIds) of
           (Some b, Some p) \<Rightarrow>
             if length nums = 3 \<and> list_all isNumericIdentifier nums
             then Some \<lparr>major = radixValue 10 (nums ! 0), minor = radixValue 10 (nums ! 1),
                        patch = radixValue 10 (nums ! 2), pre = map toIdentifier p, build = b\<rparr>
             else None
         | _ \<Rightarrow> None)"

definition SemVer :: "string \<Rightarrow> error + semver" where
  \<comment> \<open>\<open>new SemVer(version)\<close>\<close>
  "SemVer version =
     (if length version > MAX_LENGTH then Inl TypeError
      else case matchFull (trim version) of
             None \<Rightarrow> Inl TypeError
           | Some v \<Rightarrow>
               if int (major v) > MAX_SAFE_INTEGER \<or> int (minor v) > MAX_SAFE_INTEGER
                  \<or> int (patch v) > MAX_SAFE_INTEGER
               then Inl TypeError
               else Inr v)"

definition parse :: "string \<Rightarrow> semver option" where
  \<comment> \<open>\<open>semver.parse(version)\<close>: \<open>null\<close> unless the string matches and the constructor
      accepts it.\<close>
  "parse version =
     (if length version > MAX_LENGTH then None
      else if matchFull version = None then None
      else case SemVer version of Inl e \<Rightarrow> None | Inr v \<Rightarrow> Some v)"

definition prerelease :: "string \<Rightarrow> ident list option" where
  \<comment> \<open>\<open>semver.prerelease(version)\<close>: the identifiers, or \<open>null\<close> when there is none or the
      version does not parse.\<close>
  "prerelease version =
     (case parse version of
        None \<Rightarrow> None
      | Some v \<Rightarrow> if pre v \<noteq> [] then Some (pre v) else None)"

fun stringLess :: "string \<Rightarrow> string \<Rightarrow> bool" where
  \<comment> \<open>\<open>a < b\<close> on strings: by code units, a proper prefix first.\<close>
  "stringLess [] [] = False"
| "stringLess [] (b # bs) = True"
| "stringLess (a # as) [] = False"
| "stringLess (a # as) (b # bs) =
     ((of_char a :: nat) < of_char b \<or> (a = b \<and> stringLess as bs))"

fun compareIdentifiers :: "ident \<Rightarrow> ident \<Rightarrow> int" where
  "compareIdentifiers (Numeric a) (Numeric b) = (if a < b then - 1 else if b < a then 1 else 0)"
| "compareIdentifiers (Numeric a) (Alphanumeric b) = - 1"
| "compareIdentifiers (Alphanumeric a) (Numeric b) = 1"
| "compareIdentifiers (Alphanumeric a) (Alphanumeric b) =
     (if stringLess a b then - 1 else if stringLess b a then 1 else 0)"

definition compareMain :: "semver \<Rightarrow> semver \<Rightarrow> int" where
  "compareMain a b =
     (let c1 = compareIdentifiers (Numeric (major a)) (Numeric (major b));
          c2 = compareIdentifiers (Numeric (minor a)) (Numeric (minor b))
      in if c1 \<noteq> 0 then c1 else if c2 \<noteq> 0 then c2
         else compareIdentifiers (Numeric (patch a)) (Numeric (patch b)))"

fun comparePreLoop :: "ident list \<Rightarrow> ident list \<Rightarrow> int" where
  "comparePreLoop [] [] = 0"
| "comparePreLoop (a # as) [] = 1"
| "comparePreLoop [] (b # bs) = - 1"
| "comparePreLoop (a # as) (b # bs) =
     (if a = b then comparePreLoop as bs else compareIdentifiers a b)"

definition comparePre :: "semver \<Rightarrow> semver \<Rightarrow> int" where
  \<comment> \<open>A version with a pre-release is below the same version without one.\<close>
  "comparePre a b =
     (if pre a \<noteq> [] \<and> pre b = [] then - 1
      else if pre a = [] \<and> pre b \<noteq> [] then 1
      else if pre a = [] \<and> pre b = [] then 0
      else comparePreLoop (pre a) (pre b))"

definition compare :: "string \<Rightarrow> string \<Rightarrow> error + int" where
  "compare a b =
     (case SemVer a of
        Inl e \<Rightarrow> Inl e
      | Inr va \<Rightarrow>
          (case SemVer b of
             Inl e \<Rightarrow> Inl e
           | Inr vb \<Rightarrow> Inr (if compareMain va vb \<noteq> 0 then compareMain va vb else comparePre va vb)))"

definition gt :: "string \<Rightarrow> string \<Rightarrow> error + bool" where
  "gt a b = (case compare a b of Inl e \<Rightarrow> Inl e | Inr c \<Rightarrow> Inr (c > 0))"

section \<open>BaseHandler: the latest version\<close>

text \<open>
  \<^verbatim>\<open>
  getLatestVersion(versions) {
    if (!Array.isArray(versions)) return versions
    if (versions.length === 0) return null
    if (versions.length === 1) return versions[0]
    return versions
      .filter(v => !this.isPreReleaseVersion(v))
      .reduce((max, current) => (semver.gt(current, max) ? current : max), versions[0])
  }
  isPreReleaseVersion(version) {
    return semver.prerelease(version) !== null
  }
  \<close>
  The argument is an array of strings or, where it is no array, a single string. The result
  is \<open>None\<close> for \<open>null\<close>.
\<close>

datatype versionsArg = Single string | Many "string list"

definition isPreReleaseVersion :: "string \<Rightarrow> bool" where
  "isPreReleaseVersion version \<longleftrightarrow> prerelease version \<noteq> None"

fun reduceMax :: "string \<Rightarrow> string list \<Rightarrow> error + string" where
  \<comment> \<open>\<open>.reduce((max, current) => (semver.gt(current, max) ? current : max), seed)\<close>\<close>
  "reduceMax mx [] = Inr mx"
| "reduceMax mx (current # rest) =
     (case gt current mx of
        Inl e \<Rightarrow> Inl e
      | Inr isGreater \<Rightarrow> reduceMax (if isGreater then current else mx) rest)"

fun getLatestVersion :: "versionsArg \<Rightarrow> error + string option" where
  "getLatestVersion (Single v) = Inr (Some v)"
| "getLatestVersion (Many versions) =
     (if length versions = 0 then Inr None
      else if length versions = 1 then Inr (Some (versions ! 0))
      else case reduceMax (versions ! 0) (filter (\<lambda>v. \<not> isPreReleaseVersion v) versions) of
             Inl e \<Rightarrow> Inl e
           | Inr latest \<Rightarrow> Inr (Some latest))"

section \<open>BaseHandler: tool links\<close>

text \<open>
  \<^verbatim>\<open>
  toSpec(request) {
    return request.casedSpec || EntitySpec.fromUrl(request.url)
  }
  addBasicToolLinks(request, spec) {
    request.linkResource('self', this.getUrnFor(request, spec))
    // create a new URN for the tool siblings. This should not have a version but should have the tool name
    const newSpec = new EntitySpec(spec.type, spec.provider, spec.namespace, spec.name, spec.revision, spec.tool)
    newSpec.tool = newSpec.tool || this.toolSpec.tool
    delete newSpec.toolVersion
    request.linkSiblings(newSpec.toUrn())
  }
  getUrnFor(request, spec = null) {
    spec = spec || this.toSpec(request)
    const newSpec = Object.assign(Object.create(spec), spec, this.toolSpec)
    return newSpec.toUrn()
  }
  \<close>
  A handler is known here by its \<open>toolSpec\<close>, the object \<open>{ tool, toolVersion }\<close> each tool
  handler defines (\<open>{ tool: 'clearlydefined', toolVersion: '1.1.2' }\<close> for MavenExtract).
  \<open>toUrn\<close> and \<open>fromUrl\<close> are the serialisation and the parser of \<open>EntitySpec\<close>, taken as
  parameters.
\<close>

record toolSpec =
  toolName :: string
  toolRelease :: string

definition toSpec :: "(string \<Rightarrow> entitySpec) \<Rightarrow> request \<Rightarrow> entitySpec" where
  "toSpec fromUrl req = (case casedSpec req of Some s \<Rightarrow> s | None \<Rightarrow> fromUrl (url req))"

definition getUrnFor ::
  "(entitySpec \<Rightarrow> string) \<Rightarrow> (string \<Rightarrow> entitySpec) \<Rightarrow> toolSpec \<Rightarrow> request \<Rightarrow> entitySpec option \<Rightarrow> string" where
  \<comment> \<open>\<open>Object.assign\<close> copies the fields of \<open>spec\<close> and then those of \<open>toolSpec\<close>, which win.\<close>
  "getUrnFor toUrn fromUrl ts req spec =
     (let spec' = (case spec of Some s \<Rightarrow> s | None \<Rightarrow> toSpec fromUrl req);
          newSpec = spec'\<lparr>tool := Some (toolName ts), toolVersion := Some (toolRelease ts)\<rparr>
      in toUrn newSpec)"

definition addBasicToolLinks ::
  "(entitySpec \<Rightarrow> string) \<Rightarrow> (string \<Rightarrow> entitySpec) \<Rightarrow> toolSpec \<Rightarrow> request \<Rightarrow> entitySpec \<Rightarrow> request" where
  "addBasicToolLinks toUrn fromUrl ts req spec =
     (let req1 = linkResource req ''self'' (getUrnFor toUrn fromUrl ts req (Some spec));
          newSpec = EntitySpec (type spec) (provider spec) (namespace spec) (name spec)
                      (revision spec) (tool spec);
          newSpec = newSpec\<lparr>tool := (if truthy (tool newSpec) then tool newSpec else Some (toolName ts))\<rparr>;
          newSpec = newSpec\<lparr>toolVersion := None\<rparr>
      in linkSiblings req1 (toUrn newSpec))"

section \<open>BaseHandler: attachments\<close>

text \<open>
  \<^verbatim>\<open>
  static computeToken(content) {
    return shajs('sha256').update(content).digest('hex')
  }
  static attachFiles(document, files, location) {
    if (!files || !files.length) return
    if (!document._attachments) Object.defineProperty(document, '_attachments', { value: [], enumerable: false })
    document.attachments = document.attachments || []
    files.forEach(file => {
      const fullPath = path.join(location, file)
      const attachment = fs.readFileSync(fullPath, 'utf8')
      const token = BaseHandler.computeToken(attachment)
      document._attachments.push({ path: file, token, attachment })
      document.attachments.push({ path: file, token })
    })
  }
  \<close>
  The hash (\<open>sha256\<close>, hexadecimal), \<open>path.join\<close> and the file system are parameters: the file
  system maps a full path to the content \<open>readFileSync\<close> returns for it, and has nothing
  where the read throws. \<open>stashed\<close> is the hidden list \<open>_attachments\<close> of the document.
\<close>

record entry =
  path :: string
  token :: string

record attached = entry +
  attachment :: string

record hostDocument =
  stashed :: "attached list option"
  attachments :: "entry list option"

definition computeToken :: "(string \<Rightarrow> string) \<Rightarrow> string \<Rightarrow> string" where
  "computeToken sha256 content = sha256 content"

definition attachFile ::
  "(string \<Rightarrow> string) \<Rightarrow> (string \<Rightarrow> string \<Rightarrow> string) \<Rightarrow> (string \<Rightarrow> string option) \<Rightarrow> string
     \<Rightarrow> hostDocument \<Rightarrow> string \<Rightarrow> error + hostDocument" where
  \<comment> \<open>The callback of \<open>forEach\<close>. Both lists exist when it runs.\<close>
  "attachFile sha256 pathJoin fs location doc file =
     (let fullPath = pathJoin location file in
      case fs fullPath of
        None \<Rightarrow> Inl FileNotFound
      | Some content \<Rightarrow>
          let tok = computeToken sha256 content
          in Inr (doc\<lparr>stashed := Some (the (stashed doc) @ [\<lparr>path = file, token = tok, attachment = content\<rparr>]),
                      attachments := Some (the (attachments doc) @ [\<lparr>path = file, token = tok\<rparr>])\<rparr>))"

fun forEachFile ::
  "(hostDocument \<Rightarrow> string \<Rightarrow> error + hostDocument) \<Rightarrow> hostDocument \<Rightarrow> string list
     \<Rightarrow> error + hostDocument" where
  "forEachFile body doc [] = Inr doc"
| "forEachFile body doc (file # rest) =
     (case body doc file of Inl e \<Rightarrow> Inl e | Inr doc' \<Rightarrow> forEachFile body doc' rest)"

definition attachFiles ::
  "(string \<Rightarrow> string) \<Rightarrow> (string \<Rightarrow> string \<Rightarrow> string) \<Rightarrow> (string \<Rightarrow> string option)
     \<Rightarrow> hostDocument \<Rightarrow> string list option \<Rightarrow> string \<Rightarrow> error + hostDocument" where
  "attachFiles sha256 pathJoin fs doc files location =
     (case files of
        None \<Rightarrow> Inr doc
      | Some fileList \<Rightarrow>
          if fileList = [] then Inr doc
          else
            let doc1 = (if stashed doc = None then doc\<lparr>stashed := Some []\<rparr> else doc);
                doc2 = doc1\<lparr>attachments :=
                         (if attachments doc1 = None then Some [] else attachments doc1)\<rparr>
            in forEachFile (attachFile sha256 pathJoin fs location) doc2 fileList)"

text \<open>
  The records a document holds in its hidden list, and the property that each of them
  carries the token of its own content.
\<close>

definition stashedOf :: "hostDocument \<Rightarrow> attached list" where
  "stashedOf doc = (case stashed doc of None \<Rightarrow> [] | Some xs \<Rightarrow> xs)"

definition tokensOfContent :: "(string \<Rightarrow> string) \<Rightarrow> hostDocument \<Rightarrow> bool" where
  "tokensOfContent sha256 doc \<longleftrightarrow>
     list_all (\<lambda>a. token a = computeToken sha256 (attachment a)) (stashedOf doc)"

definition emptyDocument :: hostDocument where
  "emptyDocument = \<lparr>stashed = None, attachments = None\<rparr>"

definition licenseFiles :: "string \<Rightarrow> string option" where
  \<comment> \<open>A folder with the same text under two names.\<close>
  "licenseFiles = map_of [(''/pkg/LICENSE'', ''MIT License''), (''/pkg/COPYING'', ''MIT License'')]"

definition joinPath :: "string \<Rightarrow> string \<Rightarrow> string" where
  "joinPath folder file = folder @ ''/'' @ file"

text \<open>
  An identity, its request and a serialisation, for the examples. The serialisation has
  the shape of the URNs of the crawler
  (\<open>urn:type:provider:namespace:name:revision:r:tool:t:v\<close>); the \<open>toUrn\<close> of \<open>EntitySpec\<close>
  itself is not among the sources.
\<close>

definition exampleUrn :: "entitySpec \<Rightarrow> string" where
  "exampleUrn s =
     ''urn:'' @ type s @ '':'' @ provider s @ '':'' @
     (case namespace s of None \<Rightarrow> ''-'' | Some n \<Rightarrow> n) @ '':'' @ name s @
     (case revision s of None \<Rightarrow> [] | Some r \<Rightarrow> '':revision:'' @ r) @
     (case tool s of
        None \<Rightarrow> []
      | Some t \<Rightarrow> '':tool:'' @ t @ (case toolVersion s of None \<Rightarrow> [] | Some v \<Rightarrow> '':'' @ v))"

definition exampleSpec :: entitySpec where
  "exampleSpec =
     \<lparr>type = ''maven'', provider = ''mavencentral'', namespace = Some ''org.example'',
      name = ''core'', revision = Some ''1.0'', tool = None, toolVersion = None\<rparr>"

definition exampleFromUrl :: "string \<Rightarrow> entitySpec" where
  "exampleFromUrl target = exampleSpec"

definition exampleRequest :: request where
  "exampleRequest = Request ''maven'' ''cd:/maven/mavencentral/org.example/core/1.0''"

definition mavenTool :: toolSpec where
  \<comment> \<open>\<open>toolSpec\<close> of MavenExtract.\<close>
  "mavenTool = \<lparr>toolName = ''clearlydefined'', toolRelease = ''1.1.2''\<rparr>"

section \<open>MavenExtract: manifest resolution\<close>

text \<open>
  A parsed POM is what \<open>xml2js\<close> returns: an object with the root element as its only
  field. An element with children is an object whose fields hold arrays, an element with
  text only is a string. The model covers the POMs whose root has child elements (or is
  empty): \<open>project\<close> is the object under the field \<open>project\<close>, as a map from field names
  to values, and \<open>None\<close> where the root element has another name. The empty manifest
  \<open>{}\<close> has no \<open>project\<close> either.
\<close>

datatype xml = Text string | Array "xml list" | Object "(string \<times> xml) list"

type_synonym fields = "string \<rightharpoonup> xml"

record pom =
  project :: "fields option"

record manifest =
  summary :: pom
  poms :: "pom list"

text \<open>
  The world of a resolution: the content of the files by location (\<open>disk\<close>), and the
  number of temporary files created so far, each of them registered for cleanup with the
  request. The parser
  \<open>parseString\<close> and the registry behind \<open>mavenCentral.fetchPom\<close> are parameters. A fetch
  reports 404, or stores the body at the destination, or fails.
\<close>

datatype location = Path string | TempFile nat

record world =
  disk :: "location \<Rightarrow> string option"
  temporaries :: nat

datatype fetched = NotFound | Body string | Failure

fun truthyXml :: "xml \<Rightarrow> bool" where
  "truthyXml (Text s) = (s \<noteq> [])"
| "truthyXml (Array xs) = True"
| "truthyXml (Object kvs) = True"

fun index0 :: "xml \<Rightarrow> xml option" where
  \<comment> \<open>\<open>v[0]\<close>: the first element of an array, the first code unit of a string, \<open>undefined\<close>
      otherwise.\<close>
  "index0 (Array (x # xs)) = Some x"
| "index0 (Array []) = None"
| "index0 (Text (c # s)) = Some (Text [c])"
| "index0 (Text []) = None"
| "index0 (Object kvs) = None"

definition trimmedField :: "xml option \<Rightarrow> string \<Rightarrow> error + string" where
  \<comment> \<open>\<open>parent.key[0].trim()\<close>: a TypeError unless \<open>parent\<close> is an object whose field \<open>key\<close>
      starts with a string.\<close>
  "trimmedField parent key =
     (case parent of
        Some (Object kvs) \<Rightarrow>
          (case map_of kvs key of
             None \<Rightarrow> Inl TypeError
           | Some v \<Rightarrow>
               (case index0 v of
                  Some (Text s) \<Rightarrow> Inr (trim s)
                | _ \<Rightarrow> Inl TypeError))
      | _ \<Rightarrow> Inl TypeError)"

definition stripFields :: "fields \<Rightarrow> fields" where
  \<comment> \<open>The five \<open>delete pom.project.*\<close> of \<open>_getManifest\<close>.\<close>
  "stripFields f =
     f(''build'' := None, ''dependencies'' := None, ''dependencyManagement'' := None,
       ''modules'' := None, ''profiles'' := None)"

definition strip :: "pom \<Rightarrow> error + pom" where
  \<comment> \<open>Deleting a field of \<open>undefined\<close> throws.\<close>
  "strip p =
     (case project p of
        None \<Rightarrow> Inl TypeError
      | Some f \<Rightarrow> Inr \<lparr>project = Some (stripFields f)\<rparr>)"

definition hasParent :: "pom \<Rightarrow> bool" where
  \<comment> \<open>\<open>pom && pom.project && pom.project.parent\<close>\<close>
  "hasParent p =
     (case project p of
        None \<Rightarrow> False
      | Some f \<Rightarrow> (case f ''parent'' of None \<Rightarrow> False | Some v \<Rightarrow> truthyXml v))"

definition parentSpec :: "pom \<Rightarrow> error + entitySpec" where
  \<comment> \<open>The identity \<open>_fetchParentPomManifest\<close> builds, for a POM that has a parent.\<close>
  "parentSpec p =
     (let parent = (case project p of
                      None \<Rightarrow> None
                    | Some f \<Rightarrow> (case f ''parent'' of None \<Rightarrow> None | Some v \<Rightarrow> index0 v))
      in case trimmedField parent ''groupId'' of
           Inl e \<Rightarrow> Inl e
         | Inr g \<Rightarrow>
             (case trimmedField parent ''artifactId'' of
                Inl e \<Rightarrow> Inl e
              | Inr a \<Rightarrow>
                  (case trimmedField parent ''version'' of
                     Inl e \<Rightarrow> Inl e
                   | Inr v \<Rightarrow> Inr (EntitySpec ''maven'' ''mavencentral'' (Some g) a (Some v) None))))"

definition createTempFile :: "world \<Rightarrow> location \<times> world" where
  \<comment> \<open>\<open>_createTempFile(request)\<close>: a new file, tracked for cleanup.\<close>
  "createTempFile w = (TempFile (temporaries w), w\<lparr>temporaries := Suc (temporaries w)\<rparr>)"

definition assign :: "fields option \<Rightarrow> fields option \<Rightarrow> fields" where
  \<comment> \<open>\<open>Object.assign({}, a, b)\<close>: the fields of \<open>a\<close>, then those of \<open>b\<close> over them; an
      \<open>undefined\<close> source gives nothing.\<close>
  "assign a b =
     (case a of None \<Rightarrow> Map.empty | Some x \<Rightarrow> x) ++ (case b of None \<Rightarrow> Map.empty | Some y \<Rightarrow> y)"

definition mergePomInto :: "pom \<Rightarrow> manifest \<Rightarrow> manifest" where
  "mergePomInto p m =
     \<lparr>summary = \<lparr>project = Some (assign (project (summary m)) (project p))\<rparr>,
      poms = p # poms m\<rparr>"

text \<open>
  \<^verbatim>\<open>
  async _getManifest(request, location) {
    const pomContent = fs.readFileSync(location).toString().trim()
    const pom = await new Promise((resolve, reject) =>
      parseString(pomContent, (error, result) => (error ? reject(error) : resolve(result))))
    delete pom.project.build
    ...
    if (pom && pom.project && pom.project.parent) {
      const parentManifest = await this._fetchParentPomManifest(request, pom)
      return this._mergePomInto(pom, parentManifest)
    } else return { summary: pom, poms: [pom] }
  }
  async _fetchParentPomManifest(request, pom) {
    const parent = pom.project.parent[0]
    const spec = new EntitySpec('maven', 'mavencentral', parent.groupId[0].trim(), ...)
    const file = this._createTempFile(request)
    const code = await mavenCentral.fetchPom(spec, file.name)
    if (code === 404) return { summary: {}, poms: [] }
    return await this._getManifest(request, file.name)
  }
  \<close>
  The two functions call each other for as long as parents are found, and a registry in
  which two POMs name each other as parent keeps them going for ever. The model counts the
  calls of \<open>_getManifest\<close> it may still make; \<open>None\<close> says that the count ran out.
\<close>

fun getManifest ::
  "(string \<Rightarrow> pom option) \<Rightarrow> (entitySpec \<Rightarrow> fetched) \<Rightarrow> nat \<Rightarrow> world \<Rightarrow> location
     \<Rightarrow> ((error + manifest) \<times> world) option"
and fetchParentPomManifest ::
  "(string \<Rightarrow> pom option) \<Rightarrow> (entitySpec \<Rightarrow> fetched) \<Rightarrow> nat \<Rightarrow> world \<Rightarrow> pom
     \<Rightarrow> ((error + manifest) \<times> world) option" where
  "getManifest parseString fetchPom 0 w loc = None"
| "getManifest parseString fetchPom (Suc n) w loc =
     (case disk w loc of
        None \<Rightarrow> Some (Inl FileNotFound, w)
      | Some content \<Rightarrow>
          (case parseString (trim content) of
             None \<Rightarrow> Some (Inl ParseError, w)
           | Some raw \<Rightarrow>
               (case strip raw of
                  Inl e \<Rightarrow> Some (Inl e, w)
                | Inr p \<Rightarrow>
                    if hasParent p
                    then
                      (case fetchParentPomManifest parseString fetchPom n w p of
                         None \<Rightarrow> None
                       | Some (Inl e, w') \<Rightarrow> Some (Inl e, w')
                       | Some (Inr parentManifest, w') \<Rightarrow>
                           Some (Inr (mergePomInto p parentManifest), w'))
                    else Some (Inr \<lparr>summary = p, poms = [p]\<rparr>, w))))"
| "fetchParentPomManifest parseString fetchPom n w p =
     (case parentSpec p of
        Inl e \<Rightarrow> Some (Inl e, w)
      | Inr spec \<Rightarrow>
          (let (tmp, w1) = createTempFile w in
           case fetchPom spec of
             Failure \<Rightarrow> Some (Inl FetchError, w1)
           | NotFound \<Rightarrow> Some (Inr \<lparr>summary = \<lparr>project = None\<rparr>, poms = []\<rparr>, w1)
           | Body content \<Rightarrow>
               getManifest parseString fetchPom n (w1\<lparr>disk := (disk w1)(tmp \<mapsto> content)\<rparr>) tmp))"

text \<open>
  The notions the statements about the resolution use. \<open>ancestry\<close> is the chain of
  resolvable ancestors of a stripped POM, itself first: it ends at a POM without parent or
  at a parent the registry does not have. \<open>inherited\<close> is the override merge of a list of
  fragments read from the left: a field has the value of the first fragment that has it.
\<close>

inductive ancestry ::
  "(string \<Rightarrow> pom option) \<Rightarrow> (entitySpec \<Rightarrow> fetched) \<Rightarrow> pom \<Rightarrow> pom list \<Rightarrow> bool"
  for parseString fetchPom where
  root: "\<not> hasParent p \<Longrightarrow> ancestry parseString fetchPom p [p]"
| orphan: "hasParent p \<Longrightarrow> parentSpec p = Inr spec \<Longrightarrow> fetchPom spec = NotFound
     \<Longrightarrow> ancestry parseString fetchPom p [p]"
| child: "hasParent p \<Longrightarrow> parentSpec p = Inr spec \<Longrightarrow> fetchPom spec = Body content
     \<Longrightarrow> parseString (trim content) = Some raw \<Longrightarrow> strip raw = Inr q
     \<Longrightarrow> ancestry parseString fetchPom q ps
     \<Longrightarrow> ancestry parseString fetchPom p (p # ps)"

fun inherited :: "pom list \<Rightarrow> fields" where
  "inherited [] k = None"
| "inherited (p # ps) k =
     (case project p of
        None \<Rightarrow> inherited ps k
      | Some f \<Rightarrow> (case f k of Some v \<Rightarrow> Some v | None \<Rightarrow> inherited ps k))"

text \<open>A child and its parent, for the examples.\<close>

definition parentRaw :: pom where
  "parentRaw =
     \<lparr>project = Some [''artifactId'' \<mapsto> Array [Text ''base''],
                      ''licenses'' \<mapsto> Array [Text ''Apache-2.0''],
                      ''modules'' \<mapsto> Array [Text ''core'']]\<rparr>"

definition childRaw :: pom where
  "childRaw =
     \<lparr>project = Some [''artifactId'' \<mapsto> Array [Text ''core''],
                      ''build'' \<mapsto> Array [Text ''plugins''],
                      ''parent'' \<mapsto> Array [Object [(''groupId'', Array [Text '' org.example '']),
                                                  (''artifactId'', Array [Text ''base'']),
                                                  (''version'', Array [Text ''1.0'']) ]]]\<rparr>"

definition exampleParse :: "string \<Rightarrow> pom option" where
  "exampleParse content =
     (if content = ''<child/>'' then Some childRaw
      else if content = ''<base/>'' then Some parentRaw
      else None)"

definition exampleRegistry :: "entitySpec \<Rightarrow> fetched" where
  \<comment> \<open>A registry that holds the parent.\<close>
  "exampleRegistry spec = (if name spec = ''base'' then Body ''<base/> '' else NotFound)"

definition emptyRegistry :: "entitySpec \<Rightarrow> fetched" where
  "emptyRegistry spec = NotFound"

definition exampleWorld :: world where
  "exampleWorld = \<lparr>disk = [Path ''pom.xml'' \<mapsto> ''<child/>''], temporaries = 0\<rparr>"

definition childPom :: pom where
  "childPom = \<lparr>project = Some (stripFields (the (project childRaw)))\<rparr>"

definition parentPom :: pom where
  "parentPom = \<lparr>project = Some (stripFields (the (project parentRaw)))\<rparr>"

section \<open>Version aggregation: results\<close>

lemma integer_parts:
  assumes "integerVersion v"
  obtains p q r where "split v ''.'' = [p, q, r]"
    "toNumber p = Num (component 0 v)" "toNumber q = Num (component (Suc 0) v)"
    "toNumber r = Num (component 2 v)"
proof -
  from assms obtain a b c where
    m: "map toNumber (split v ''.'') = [Num a, Num b, Num c]"
    unfolding integerVersion_def by (elim exE)
  from m obtain p q r where s: "split v ''.'' = [p, q, r]"
    by (auto simp: map_eq_Cons_conv)
  have c: "component 0 v = a" "component (Suc 0) v = b" "component 2 v = c"
    using m by (simp_all add: component_def numeral_2_eq_2)
  have n: "toNumber p = Num a" "toNumber q = Num b" "toNumber r = Num c"
    using m unfolding s by simp_all
  show thesis
    by (rule that[OF s]) (simp_all only: c n)
qed

lemma integer_valid: "integerVersion v \<Longrightarrow> validVersion v"
  by (erule integer_parts) (simp add: validVersion_def isNaN_def)

lemma reduce_throws_iff:
  "(\<exists>m. reduceVersions e r vs = Inl m) \<longleftrightarrow> (\<exists>v \<in> set vs. \<not> validVersion v)"
  by (induction vs arbitrary: r)
     (simp_all add: validVersion_def Let_def list_ex_iff list_all_iff)

lemma reduce_message:
  "reduceVersions e r vs = Inl m \<Longrightarrow> \<exists>v \<in> set vs. \<not> validVersion v \<and> m = e @ '': '' @ v"
proof (induction vs arbitrary: r)
  case Nil
  then show ?case by simp
next
  case (Cons v vs)
  show ?case
  proof (cases "validVersion v")
    case True
    then have "reduceVersions e (addParts r (split v ''.'')) vs = Inl m"
      using Cons.prems by (simp add: validVersion_def Let_def list_ex_iff list_all_iff)
    from Cons.IH[OF this] show ?thesis by auto
  next
    case False
    then have "m = e @ '': '' @ v"
      using Cons.prems by (simp add: validVersion_def Let_def list_ex_iff list_all_iff split: if_splits)
    with False show ?thesis by simp
  qed
qed

lemma absColumn_nonneg: "0 \<le> absColumn i vs"
  unfolding absColumn_def by (induction vs) simp_all

lemma asDouble_small: "\<bar>n\<bar> \<le> 2 ^ 53 \<Longrightarrow> asDouble n = Num n"
  by (simp add: asDouble_def)

lemma addParts_integer:
  assumes "integerVersion v"
  shows "addParts [Num a, Num b, Num c] (split v ''.'') =
         [asDouble (a + component 0 v), asDouble (b + component (Suc 0) v),
          asDouble (c + component 2 v)]"
  using assms by (elim integer_parts) (simp add: addParts_def plusAssignAt_def numeral_2_eq_2)

lemma reduce_integer:
  assumes "\<forall>v \<in> set vs. integerVersion v"
    and "\<bar>a\<bar> + absColumn 0 vs \<le> 2 ^ 53" "\<bar>b\<bar> + absColumn (Suc 0) vs \<le> 2 ^ 53"
      "\<bar>c\<bar> + absColumn 2 vs \<le> 2 ^ 53"
  shows "reduceVersions e [Num a, Num b, Num c] vs =
         Inr [Num (a + column 0 vs), Num (b + column (Suc 0) vs), Num (c + column 2 vs)]"
  using assms
proof (induction vs arbitrary: a b c)
  case Nil
  then show ?case by (simp add: column_def)
next
  case (Cons v vs)
  have iv: "integerVersion v" and rest: "\<forall>v \<in> set vs. integerVersion v"
    using Cons.prems(1) by simp_all
  have vv: "validVersion v" using iv by (rule integer_valid)
  have rn: "0 \<le> absColumn 0 vs" "0 \<le> absColumn (Suc 0) vs" "0 \<le> absColumn 2 vs"
    by (rule absColumn_nonneg)+
  have col: "\<And>i. column i (v # vs) = component i v + column i vs"
    by (simp add: column_def)
  have acol: "\<And>i. absColumn i (v # vs) = \<bar>component i v\<bar> + absColumn i vs"
    by (simp add: absColumn_def)
  have nx: "\<bar>a + component 0 v\<bar> + absColumn 0 vs \<le> 2 ^ 53"
    "\<bar>b + component (Suc 0) v\<bar> + absColumn (Suc 0) vs \<le> 2 ^ 53"
    "\<bar>c + component 2 v\<bar> + absColumn 2 vs \<le> 2 ^ 53"
    using Cons.prems(2-4) unfolding acol by linarith+
  have ex: "asDouble (a + component 0 v) = Num (a + component 0 v)"
    "asDouble (b + component (Suc 0) v) = Num (b + component (Suc 0) v)"
    "asDouble (c + component 2 v) = Num (c + component 2 v)"
    using nx rn by (intro asDouble_small; linarith)+
  have step: "reduceVersions e [Num a, Num b, Num c] (v # vs) =
      reduceVersions e [Num (a + component 0 v), Num (b + component (Suc 0) v),
        Num (c + component 2 v)] vs"
    using vv by (simp add: validVersion_def Let_def list_ex_iff list_all_iff addParts_integer[OF iv] ex)
  have "reduceVersions e [Num (a + component 0 v), Num (b + component (Suc 0) v),
        Num (c + component 2 v)] vs
      = Inr [Num (a + component 0 v + column 0 vs), Num (b + component (Suc 0) v + column (Suc 0) vs),
             Num (c + component 2 v + column 2 vs)]"
    by (rule Cons.IH[OF rest nx])
  then show ?case unfolding step col by (simp only: add.assoc)
qed

lemma base_integer:
  assumes "integerVersion base"
  shows "map toNumber (split base ''.'') =
     [Num (component 0 base), Num (component (Suc 0) base), Num (component 2 base)]"
  using assms by (elim integer_parts) simp

lemma number_examples:
  shows "map toNumber (split ''0.0.0'' ''.'') = [Num 0, Num 0, Num 0]"
    and "map toNumber (split ''1.2.3'' ''.'') = [Num 1, Num 2, Num 3]"
    and "map toNumber (split ''0.0.1'' ''.'') = [Num 0, Num 0, Num 1]"
    and "map toNumber (split ''-1.0x10.1e2'' ''.'') = [Num (- 1), Num 16, Num 100]"
  by code_simp+

text \<open>
  Claim C6 fails on the code in two ways. The base is not checked: with the base \<open>0.0\<close> the
  valid version \<open>1.2.3\<close> gives \<open>1.2.NaN\<close>, and with the base \<open>0.0.0.0\<close> it gives four
  components. And the sums are sums of doubles: \<open>9007199254740991 + 2\<close> is
  \<open>9007199254740993\<close>, which no double holds, and the code returns \<open>9007199254740992\<close>.
\<close>

theorem aggregateVersions_unchecked_base_and_rounding:
  "validVersion ''1.2.3'' \<and>
   aggregateVersions [''1.2.3''] ''err'' ''0.0'' = Returned ''1.2.NaN'' \<and>
   aggregateVersions [''1.2.3''] ''err'' ''0.0.0.0'' = Returned ''1.2.3.0'' \<and>
   validVersion ''9007199254740991.0.0'' \<and> validVersion ''2.0.0'' \<and>
   aggregateVersions [''9007199254740991.0.0'', ''2.0.0''] ''err'' ''0.0.0'' =
     Returned ''9007199254740992.0.0'' \<and>
   showInt (9007199254740991 + 2) = ''9007199254740993''"
proof (intro conjI)
  show "validVersion ''1.2.3''" by code_simp
  show "aggregateVersions [''1.2.3''] ''err'' ''0.0'' = Returned ''1.2.NaN''" by code_simp
  show "aggregateVersions [''1.2.3''] ''err'' ''0.0.0.0'' = Returned ''1.2.3.0''" by code_simp
  show "validVersion ''2.0.0''" by code_simp
  have big: "toNumber ''9007199254740991'' = Num 9007199254740991"
    by (simp add: toNumber_def trim_def isWhiteSpace_def unsignedDecimal_def isDigit_def
        radixValue_def digitOf_def exponentValue_def scaled_def asDouble_def Let_def)
  have zero: "toNumber ''0'' = Num 0" and two: "toNumber ''2'' = Num 2" by code_simp+
  have s1: "split ''9007199254740991.0.0'' ''.'' = [''9007199254740991'', ''0'', ''0'']"
    by (simp add: split_def startsWith_def)
  have s2: "split ''2.0.0'' ''.'' = [''2'', ''0'', ''0'']"
    and s0: "split ''0.0.0'' ''.'' = [''0'', ''0'', ''0'']"
    by (simp_all add: split_def startsWith_def)
  show "validVersion ''9007199254740991.0.0''"
    unfolding validVersion_def s1 by (simp add: big zero isNaN_def)
  have sum: "asDouble (9007199254740991 + 2) = Num 9007199254740992"
    by (simp add: asDouble_def)
  have str: "showInt 9007199254740992 = ''9007199254740992''" "showInt 0 = ''0''"
    by (simp_all add: showInt_def)
  show "aggregateVersions [''9007199254740991.0.0'', ''2.0.0''] ''err'' ''0.0.0'' =
     Returned ''9007199254740992.0.0''"
    unfolding aggregateVersions_def s0
    by (simp add: s1 s2 big zero two isNaN_def addParts_def plusAssignAt_def asDouble_def str
        del: showNat.simps)
  show "showInt (9007199254740991 + 2) = ''9007199254740993''"
    by (simp add: showInt_def)
qed

text \<open>
  Claim C6, amended. \<open>_aggregateVersions\<close> throws if and only if some version does not split
  at the dots into exactly three parts that the numeric test accepts, and the error then
  names \<open>errorRoot\<close> and an offending version. When the base and every version are triples
  of integers, of either sign and in any notation the conversion accepts, and in each of the
  three positions their absolute values add up to at most \<open>2^53\<close>, the result is the three
  column sums, base included, joined by dots.
\<close>

theorem aggregateVersions_spec:
  "((\<exists>message. aggregateVersions versions errorRoot base = Threw message)
      \<longleftrightarrow> (\<exists>v \<in> set versions. \<not> validVersion v)) \<and>
   (\<forall>message. aggregateVersions versions errorRoot base = Threw message \<longrightarrow>
      (\<exists>v \<in> set versions. \<not> validVersion v \<and> message = errorRoot @ '': '' @ v)) \<and>
   (list_all integerVersion (base # versions) \<and>
    absColumn 0 (base # versions) \<le> 2 ^ 53 \<and>
    absColumn 1 (base # versions) \<le> 2 ^ 53 \<and>
    absColumn 2 (base # versions) \<le> 2 ^ 53 \<longrightarrow>
      aggregateVersions versions errorRoot base =
        Returned (join (map (\<lambda>i. showInt (column i (base # versions))) [0, 1, 2]) ''.''))"
proof (intro conjI allI impI)
  show "(\<exists>message. aggregateVersions versions errorRoot base = Threw message)
      \<longleftrightarrow> (\<exists>v \<in> set versions. \<not> validVersion v)"
    unfolding reduce_throws_iff[of errorRoot "map toNumber (split base ''.'')" versions, symmetric]
    by (simp add: aggregateVersions_def split: sum.splits)
next
  fix message
  assume "aggregateVersions versions errorRoot base = Threw message"
  then have "reduceVersions errorRoot (map toNumber (split base ''.'')) versions = Inl message"
    by (simp add: aggregateVersions_def split: sum.splits if_splits)
  then show "\<exists>v \<in> set versions. \<not> validVersion v \<and> message = errorRoot @ '': '' @ v"
    by (rule reduce_message)
next
  assume h: "list_all integerVersion (base # versions) \<and>
    absColumn 0 (base # versions) \<le> 2 ^ 53 \<and>
    absColumn 1 (base # versions) \<le> 2 ^ 53 \<and>
    absColumn 2 (base # versions) \<le> 2 ^ 53"
  then have ib: "integerVersion base" and iv: "\<forall>v \<in> set versions. integerVersion v"
    by (simp_all add: list_all_iff)
  have col: "\<And>i. column i (base # versions) = component i base + column i versions"
    by (simp add: column_def)
  have acol: "\<And>i. absColumn i (base # versions) = \<bar>component i base\<bar> + absColumn i versions"
    by (simp add: absColumn_def)
  have "reduceVersions errorRoot
      [Num (component 0 base), Num (component (Suc 0) base), Num (component 2 base)] versions
     = Inr [Num (component 0 base + column 0 versions),
            Num (component (Suc 0) base + column (Suc 0) versions),
            Num (component 2 base + column 2 versions)]"
    using h by (intro reduce_integer[OF iv]) (simp_all add: acol)
  then show "aggregateVersions versions errorRoot base =
        Returned (join (map (\<lambda>i. showInt (column i (base # versions))) [0, 1, 2]) ''.'')"
    by (simp add: aggregateVersions_def base_integer[OF ib] col)
qed

theorem aggregateVersions_spec_witness:
  "aggregateVersions [''1.2.3'', ''0.0.1''] ''err'' ''0.0.0'' = Returned ''1.2.4'' \<and>
   aggregateVersions [''-1.0x10.1e2'', ''1.2.3''] ''err'' ''0.0.0'' = Returned ''0.18.103'' \<and>
   aggregateVersions [''1.x.0''] ''err'' ''0.0.0'' = Threw ''err: 1.x.0''"
proof (intro conjI)
  note p = number_examples
  have il: "list_all integerVersion [''0.0.0'', ''1.2.3'', ''0.0.1'']"
    unfolding integerVersion_def list.pred_inject p by simp
  have a: "absColumn 0 [''0.0.0'', ''1.2.3'', ''0.0.1''] = 1"
    "absColumn 1 [''0.0.0'', ''1.2.3'', ''0.0.1''] = 2"
    "absColumn 2 [''0.0.0'', ''1.2.3'', ''0.0.1''] = 4"
    unfolding absColumn_def component_def list.map p by simp_all
  have c: "column 0 [''0.0.0'', ''1.2.3'', ''0.0.1''] = 1"
    "column 1 [''0.0.0'', ''1.2.3'', ''0.0.1''] = 2"
    "column 2 [''0.0.0'', ''1.2.3'', ''0.0.1''] = 4"
    unfolding column_def component_def list.map p by simp_all
  have s: "showInt 1 = ''1''" "showInt 2 = ''2''" "showInt 4 = ''4''" by code_simp+
  from aggregateVersions_spec[of "[''1.2.3'', ''0.0.1'']" "''err''" "''0.0.0''"] il
  have "aggregateVersions [''1.2.3'', ''0.0.1''] ''err'' ''0.0.0'' =
        Returned (join (map (\<lambda>i. showInt (column i [''0.0.0'', ''1.2.3'', ''0.0.1''])) [0, 1, 2]) ''.'')"
    unfolding a by simp
  then show "aggregateVersions [''1.2.3'', ''0.0.1''] ''err'' ''0.0.0'' = Returned ''1.2.4''"
    unfolding list.map c s by simp
next
  note p = number_examples
  have il: "list_all integerVersion [''0.0.0'', ''-1.0x10.1e2'', ''1.2.3'']"
    unfolding integerVersion_def list.pred_inject p by simp
  have a: "absColumn 0 [''0.0.0'', ''-1.0x10.1e2'', ''1.2.3''] = 2"
    "absColumn 1 [''0.0.0'', ''-1.0x10.1e2'', ''1.2.3''] = 18"
    "absColumn 2 [''0.0.0'', ''-1.0x10.1e2'', ''1.2.3''] = 103"
    unfolding absColumn_def component_def list.map p by simp_all
  have c: "column 0 [''0.0.0'', ''-1.0x10.1e2'', ''1.2.3''] = 0"
    "column 1 [''0.0.0'', ''-1.0x10.1e2'', ''1.2.3''] = 18"
    "column 2 [''0.0.0'', ''-1.0x10.1e2'', ''1.2.3''] = 103"
    unfolding column_def component_def list.map p by simp_all
  have s: "showInt 0 = ''0''" "showInt 18 = ''18''" "showInt 103 = ''103''" by code_simp+
  from aggregateVersions_spec[of "[''-1.0x10.1e2'', ''1.2.3'']" "''err''" "''0.0.0''"] il
  have "aggregateVersions [''-1.0x10.1e2'', ''1.2.3''] ''err'' ''0.0.0'' =
        Returned (join (map (\<lambda>i. showInt (column i [''0.0.0'', ''-1.0x10.1e2'', ''1.2.3''])) [0, 1, 2]) ''.'')"
    unfolding a by simp
  then show "aggregateVersions [''-1.0x10.1e2'', ''1.2.3''] ''err'' ''0.0.0'' = Returned ''0.18.103''"
    unfolding list.map c s by simp
next
  have "\<not> validVersion ''1.x.0''" by code_simp
  with aggregateVersions_spec[of "[''1.x.0'']" "''err''" "''0.0.0''"]
  show "aggregateVersions [''1.x.0''] ''err'' ''0.0.0'' = Threw ''err: 1.x.0''"
    by auto
qed

text \<open>
  Claim C9. An empty component passes the numeric test, because the empty string converts to
  the number \<open>0\<close>: \<open>_aggregateVersions(["1..3"], "err")\<close> returns \<open>"1.0.3"\<close> and does not
  throw.
\<close>

theorem aggregateVersions_empty_component:
  "aggregateVersions [''1..3''] ''err'' ''0.0.0'' = Returned ''1.0.3'' \<and>
   toNumber [] = Num 0 \<and> \<not> isNaN (toNumber [])"
  by code_simp

section \<open>Embedded components: results\<close>

subsection \<open>Facts about the string methods\<close>

lemma indexOf_at_start: "pat \<noteq> [] \<Longrightarrow> indexOf (pat @ s) pat = Some 0"
  by (cases pat) (simp_all add: startsWith_def)

lemma replace_prefix: "replace ((p @ ''-'') @ v) (p @ ''-'') [] = v"
proof -
  have "indexOf ((p @ ''-'') @ v) (p @ ''-'') = Some 0"
    by (rule indexOf_at_start) simp
  then show ?thesis by (simp add: replace_def)
qed

lemma splitFrom_indexOf:
  assumes "sep \<noteq> []"
  shows "splitFrom sep acc s =
    (case indexOf s sep of
       None \<Rightarrow> [rev acc @ s]
     | Some i \<Rightarrow> (rev acc @ take i s) # splitFrom sep [] (drop (i + length sep) s))"
proof (induction s arbitrary: acc)
  case Nil
  then show ?case using assms by simp
next
  case (Cons c s)
  show ?case
  proof (cases "startsWith (c # s) sep")
    case True
    then show ?thesis using assms by simp
  next
    case False
    then have "splitFrom sep acc (c # s) = splitFrom sep (c # acc) s" by simp
    also have "\<dots> = (case indexOf s sep of
         None \<Rightarrow> [rev (c # acc) @ s]
       | Some i \<Rightarrow> (rev (c # acc) @ take i s) # splitFrom sep [] (drop (i + length sep) s))"
      by (rule Cons.IH)
    finally show ?thesis using False by (simp split: option.splits)
  qed
qed

lemma forIndices_append:
  "forIndices body (xs @ ys) st =
     (case forIndices body xs st of Inl e \<Rightarrow> Inl e | Inr st' \<Rightarrow> forIndices body ys st')"
  by (induction xs arbitrary: st) (simp_all split: sum.splits)

lemma apkStep_inside:
  assumes "i < length apkNameAndVersionList"
  shows "apkStep apkNameList apkNameAndVersionList i st =
    Inr (st\<lparr>document := (document st)\<lparr>embedded := embedded (document st) @
      [apkUrl (apkNameList ! i) (replace (apkNameAndVersionList ! i) (apkNameList ! i @ ''-'') [])]\<rparr>\<rparr>)"
  using assms by (simp add: apkStep_def Let_def addEmbeddedComponent_def apkUrl_def)

lemma apkStep_outside:
  "\<not> i < length apkNameAndVersionList \<Longrightarrow>
     apkStep apkNameList apkNameAndVersionList i st = Inl TypeError"
  by (simp add: apkStep_def)

lemma forIndices_inside:
  "list_all (\<lambda>i. i < length nvs) ixs \<Longrightarrow> \<exists>st'. forIndices (apkStep ns nvs) ixs st = Inr st'"
  by (induction ixs arbitrary: st) (simp_all add: apkStep_inside)

lemma forIndices_outside:
  "list_ex (\<lambda>i. \<not> i < length nvs) ixs \<Longrightarrow> forIndices (apkStep ns nvs) ixs st = Inl TypeError"
proof (induction ixs arbitrary: st)
  case Nil
  then show ?case by simp
next
  case (Cons i ixs)
  show ?case
  proof (cases "i < length nvs")
    case True
    with Cons.prems have "list_ex (\<lambda>i. \<not> i < length nvs) ixs" by simp
    then show ?thesis using True Cons.IH by (simp add: apkStep_inside)
  next
    case False
    then show ?thesis by (simp add: apkStep_outside)
  qed
qed

lemma apk_loop:
  assumes "length vs = length ns" and "n \<le> length ns"
  shows "forIndices (apkStep ns (map2 (\<lambda>p v. p @ ''-'' @ v) ns vs)) [0 ..< n] st =
    Inr (st\<lparr>document := (document st)\<lparr>embedded := embedded (document st) @
      map2 apkUrl (take n ns) (take n vs)\<rparr>\<rparr>)"
  using assms(2)
proof (induction n)
  case 0
  then show ?case by simp
next
  case (Suc n)
  define nvs where "nvs = map2 (\<lambda>p v. p @ ''-'' @ v) ns vs"
  define mid where "mid = st\<lparr>document := (document st)\<lparr>embedded := embedded (document st) @
      map2 apkUrl (take n ns) (take n vs)\<rparr>\<rparr>"
  from Suc.prems have n: "n < length ns" "n < length vs" using assms(1) by simp_all
  have i: "n < length nvs" using n by (simp add: nvs_def)
  have "nvs ! n = (ns ! n @ ''-'') @ vs ! n" using n by (simp add: nvs_def)
  then have r: "replace (nvs ! n) (ns ! n @ ''-'') [] = vs ! n"
    by (simp only: replace_prefix)
  have t: "take (Suc n) ns = take n ns @ [ns ! n]" "take (Suc n) vs = take n vs @ [vs ! n]"
    using n by (simp_all add: take_Suc_conv_app_nth)
  have ih: "forIndices (apkStep ns nvs) [0 ..< n] st = Inr mid"
    using Suc.IH n unfolding nvs_def mid_def by simp
  have "forIndices (apkStep ns nvs) [0 ..< Suc n] st = apkStep ns nvs n mid"
    by (simp add: forIndices_append ih split: sum.splits)
  also have "\<dots> = Inr (mid\<lparr>document := (document mid)\<lparr>embedded := embedded (document mid) @
      [apkUrl (ns ! n) (vs ! n)]\<rparr>\<rparr>)"
    unfolding apkStep_inside[OF i] r ..
  also have "\<dots> = Inr (st\<lparr>document := (document st)\<lparr>embedded := embedded (document st) @
      map2 apkUrl (take (Suc n) ns) (take (Suc n) vs)\<rparr>\<rparr>)"
    using n unfolding t by (simp add: mid_def)
  finally show ?case unfolding nvs_def .
qed

lemma dpkg_loop:
  "foldl dpkgStep st ls =
     st\<lparr>document := (document st)\<lparr>embedded := embedded (document st) @ map dpkgUrl ls\<rparr>\<rparr>"
proof (induction ls arbitrary: st)
  case Nil
  then show ?case by simp
next
  case (Cons l ls)
  have "dpkgStep st l =
      st\<lparr>document := (document st)\<lparr>embedded := embedded (document st) @ [dpkgUrl l]\<rparr>\<rparr>"
    by (simp add: dpkgStep_def dpkgUrl_def addEmbeddedComponent_def Let_def split: prod.splits)
  then show ?case by (simp add: Cons.IH)
qed

lemma queueDpkgs_embedded:
  assumes "dpkg (document st) = Some listing" and "listing \<noteq> []"
  shows "queueDpkgs st = st\<lparr>document := (document st)\<lparr>embedded :=
    embedded (document st) @ map dpkgUrl (split listing newline)\<rparr>\<rparr>"
  using assms by (simp add: queueDpkgs_def dpkg_loop)

subsection \<open>The claims\<close>

text \<open>
  Claim C2, at the example of the specification: the two pairs are recovered and each gives
  one collection-member entry, but the queue is as empty afterwards as it was before. The
  claim promises a follow-on work item for every pair.
\<close>

theorem queueApks_example_queues_nothing:
  "queueApks apkExample =
     Inr (apkExample\<lparr>document := (document apkExample)\<lparr>embedded :=
       [''cd:/apk/apk/-/a/1.0'', ''cd:/apk/apk/-/b/2.0'']\<rparr>\<rparr>) \<and>
   (case queueApks apkExample of Inl e \<Rightarrow> [] | Inr st' \<Rightarrow> queue st') = []"
  by code_simp

text \<open>
  Claim C2, amended. When the two listings have as many lines and the entry at each index
  is \<open>name-version\<close> for the name at that index, \<open>_queueApks\<close> pairs them by index, recovers
  each version by removing the prefix, and records one collection-member entry per pair,
  in order, with the URL \<open>cd:/apk/apk/-/name/version\<close>. It queues no follow-on work item.
\<close>

theorem queueApks_pairs:
  assumes "apk (document st) = Some listing"
    and "split (names listing) newline = ns"
    and "split (namesAndVersions listing) newline = map2 (\<lambda>p v. p @ ''-'' @ v) ns vs"
    and "length vs = length ns"
  shows "\<exists>st'. queueApks st = Inr st' \<and>
     embedded (document st') = embedded (document st) @ map2 apkUrl ns vs \<and>
     queue st' = queue st"
proof -
  have "queueApks st =
      forIndices (apkStep ns (map2 (\<lambda>p v. p @ ''-'' @ v) ns vs)) [0 ..< length ns] st"
    using assms(1-3) by (simp add: queueApks_def)
  also have "\<dots> = Inr (st\<lparr>document := (document st)\<lparr>embedded := embedded (document st) @
      map2 apkUrl (take (length ns) ns) (take (length ns) vs)\<rparr>\<rparr>)"
    by (rule apk_loop[OF assms(4)]) simp
  finally show ?thesis using assms(4) by simp
qed

theorem queueApks_pairs_witness:
  "\<exists>st'. queueApks apkExample = Inr st' \<and>
     embedded (document st') = [apkUrl ''a'' ''1.0'', apkUrl ''b'' ''2.0''] \<and>
     queue st' = []"
proof -
  have a: "apk (document apkExample) =
      Some \<lparr>names = ''a'' @ newline @ ''b'', namesAndVersions = ''a-1.0'' @ newline @ ''b-2.0''\<rparr>"
    by (simp add: apkExample_def)
  have n: "split (names \<lparr>names = ''a'' @ newline @ ''b'',
      namesAndVersions = ''a-1.0'' @ newline @ ''b-2.0''\<rparr>) newline = [''a'', ''b'']"
    by code_simp
  have v: "split (namesAndVersions \<lparr>names = ''a'' @ newline @ ''b'',
      namesAndVersions = ''a-1.0'' @ newline @ ''b-2.0''\<rparr>) newline =
      map2 (\<lambda>p v. p @ ''-'' @ v) [''a'', ''b''] [''1.0'', ''2.0'']"
    by code_simp
  have e: "embedded (document apkExample) = []" "queue apkExample = []"
    by (simp_all add: apkExample_def)
  from queueApks_pairs[OF a n v] show ?thesis
    unfolding e by simp
qed

text \<open>
  Claim C10. When the bare-name listing has more lines than the name-and-version listing,
  the loop reads past the end of the second list and \<open>_queueApks\<close> throws a TypeError
  instead of returning; when it has no more lines it returns; and without any \<open>apk\<close>
  listing it returns the state as it was, with no component added.
\<close>

theorem queueApks_faults:
  "(apk (document st) = None \<longrightarrow> queueApks st = Inr st) \<and>
   (\<forall>listing. apk (document st) = Some listing \<longrightarrow>
      (length (split (namesAndVersions listing) newline) < length (split (names listing) newline)
         \<longrightarrow> queueApks st = Inl TypeError) \<and>
      (length (split (names listing) newline) \<le> length (split (namesAndVersions listing) newline)
         \<longrightarrow> (\<exists>st'. queueApks st = Inr st')))"
proof (intro conjI allI impI)
  assume "apk (document st) = None"
  then show "queueApks st = Inr st" by (simp add: queueApks_def)
next
  fix listing
  assume a: "apk (document st) = Some listing"
    and l: "length (split (namesAndVersions listing) newline) < length (split (names listing) newline)"
  have "list_ex (\<lambda>i. \<not> i < length (split (namesAndVersions listing) newline))
      [0 ..< length (split (names listing) newline)]"
    unfolding list_ex_iff using l
    by (intro bexI[of _ "length (split (namesAndVersions listing) newline)"]) simp_all
  then show "queueApks st = Inl TypeError"
    using a by (simp add: queueApks_def Let_def forIndices_outside)
next
  fix listing
  assume a: "apk (document st) = Some listing"
    and l: "length (split (names listing) newline) \<le> length (split (namesAndVersions listing) newline)"
  have "list_all (\<lambda>i. i < length (split (namesAndVersions listing) newline))
      [0 ..< length (split (names listing) newline)]"
    unfolding list_all_iff using l by simp
  then show "\<exists>st'. queueApks st = Inr st'"
    using a by (simp add: queueApks_def Let_def forIndices_inside)
qed

theorem queueApks_faults_witness:
  "queueApks \<lparr>document = \<lparr>apk = Some \<lparr>names = ''a'' @ newline @ ''b'', namesAndVersions = ''a-1.0''\<rparr>,
       dpkg = None, embedded = []\<rparr>, queue = []\<rparr> = Inl TypeError \<and>
   queueApks \<lparr>document = \<lparr>apk = None, dpkg = None, embedded = []\<rparr>, queue = []\<rparr> =
     Inr \<lparr>document = \<lparr>apk = None, dpkg = None, embedded = []\<rparr>, queue = []\<rparr>"
proof
  have l: "length (split (namesAndVersions \<lparr>names = ''a'' @ newline @ ''b'', namesAndVersions = ''a-1.0''\<rparr>) newline)
      < length (split (names \<lparr>names = ''a'' @ newline @ ''b'', namesAndVersions = ''a-1.0''\<rparr>) newline)"
    by code_simp
  show "queueApks \<lparr>document = \<lparr>apk = Some \<lparr>names = ''a'' @ newline @ ''b'', namesAndVersions = ''a-1.0''\<rparr>,
       dpkg = None, embedded = []\<rparr>, queue = []\<rparr> = Inl TypeError"
    using l queueApks_faults[of "\<lparr>document = \<lparr>apk = Some \<lparr>names = ''a'' @ newline @ ''b'', namesAndVersions = ''a-1.0''\<rparr>,
       dpkg = None, embedded = []\<rparr>, queue = []\<rparr>"]
    by simp
next
  show "queueApks \<lparr>document = \<lparr>apk = None, dpkg = None, embedded = []\<rparr>, queue = []\<rparr> =
     Inr \<lparr>document = \<lparr>apk = None, dpkg = None, embedded = []\<rparr>, queue = []\<rparr>"
    using queueApks_faults[of "\<lparr>document = \<lparr>apk = None, dpkg = None, embedded = []\<rparr>, queue = []\<rparr>"]
    by simp
qed

text \<open>
  Claim C8, at a line whose remainder holds the delimiter again: the version recovered is
  the text up to the second delimiter, not the whole remainder.
\<close>

theorem dpkgPair_drops_remainder:
  "dpkgPair ''a___1___2'' = (Some ''a'', Some ''1'') \<and>
   dpkgPair ''a___1___2'' \<noteq> (Some ''a'', Some ''1___2'')"
  by code_simp

text \<open>
  Claim C8, amended. The line is split at every delimiter and the first two pieces are
  taken: the name is the text before the first delimiter, and the version is the text
  between the first delimiter and the second, or up to the end of the line when there is no
  second one. A line without delimiter gives the whole line as the name and no version.
\<close>

theorem dpkgPair_first_two:
  "dpkgPair line =
     (case indexOf line ''___'' of
        None \<Rightarrow> (Some line, None)
      | Some i \<Rightarrow>
          (Some (take i line),
           Some (case indexOf (drop (i + 3) line) ''___'' of
                   None \<Rightarrow> drop (i + 3) line
                 | Some j \<Rightarrow> take j (drop (i + 3) line))))"
proof (cases "indexOf line ''___''")
  case None
  then have "splitFrom ''___'' [] line = [line]"
    by (simp add: splitFrom_indexOf[of "''___''" "[]" line])
  then show ?thesis using None by (simp add: dpkgPair_def split_def)
next
  case (Some i)
  define rest where "rest = drop (i + 3) line"
  have first: "splitFrom ''___'' [] line = take i line # splitFrom ''___'' [] rest"
    using Some by (simp add: splitFrom_indexOf[of "''___''" "[]" line] rest_def numeral_3_eq_3)
  show ?thesis
  proof (cases "indexOf rest ''___''")
    case None
    then have "splitFrom ''___'' [] rest = [rest]"
      by (simp add: splitFrom_indexOf[of "''___''" "[]" rest] numeral_3_eq_3)
    then show ?thesis
      using Some None first by (simp add: dpkgPair_def split_def rest_def)
  next
    case (Some j)
    then have "splitFrom ''___'' [] rest =
        take j rest # splitFrom ''___'' [] (drop (j + 3) rest)"
      by (simp add: splitFrom_indexOf[of "''___''" "[]" rest] numeral_3_eq_3)
    then show ?thesis
      using \<open>indexOf line ''___'' = Some i\<close> Some first
      by (simp add: dpkgPair_def split_def rest_def)
  qed
qed

section \<open>BaseHandler: results\<close>

subsection \<open>The latest version\<close>

lemma getLatestVersion_only_prereleases:
  assumes "length versions \<ge> 2" and "list_all isPreReleaseVersion versions"
  shows "getLatestVersion (Many versions) = Inr (Some (versions ! 0))"
proof -
  have "filter (\<lambda>v. \<not> isPreReleaseVersion v) versions = []"
    using assms(2) by (simp add: list_all_iff)
  moreover have "length versions \<noteq> 0" "length versions \<noteq> 1" using assms(1) by auto
  ultimately show ?thesis by simp
qed

text \<open>
  Claim C1 fails on the code at the example the claim itself gives. The fold over the
  versions without pre-release starts from \<open>versions[0]\<close> of the unfiltered array; here that
  is the pre-release \<open>2.0.0-beta\<close>, which \<open>1.0.0\<close> is not greater than, so the pre-release
  is returned although a version without pre-release exists.
\<close>

theorem getLatestVersion_returns_prerelease:
  "getLatestVersion (Many [''2.0.0-beta'', ''1.0.0'']) = Inr (Some ''2.0.0-beta'') \<and>
   isPreReleaseVersion ''2.0.0-beta'' \<and> \<not> isPreReleaseVersion ''1.0.0'' \<and>
   gt ''1.0.0'' ''2.0.0-beta'' = Inr False"
  by code_simp

subsection \<open>Tool links\<close>

text \<open>
  Claim C5, at an identity with a revision: the siblings link goes to a URN that still
  carries the revision \<open>1.0\<close>, not to the URN of the identity with its version cleared.
  The constructor call of the source passes \<open>spec.revision\<close> on; only \<open>toolVersion\<close> is removed.
\<close>

theorem addBasicToolLinks_keeps_revision:
  "links (addBasicToolLinks exampleUrn exampleFromUrl mavenTool exampleRequest exampleSpec) =
     [Resource ''self'' ''urn:maven:mavencentral:org.example:core:revision:1.0:tool:clearlydefined:1.1.2'',
      Siblings ''urn:maven:mavencentral:org.example:core:revision:1.0:tool:clearlydefined''] \<and>
   exampleUrn (exampleSpec\<lparr>revision := None, tool := Some ''clearlydefined'', toolVersion := None\<rparr>) =
     ''urn:maven:mavencentral:org.example:core:tool:clearlydefined''"
  by (simp add: addBasicToolLinks_def getUrnFor_def linkResource_def linkSiblings_def
      EntitySpec_def Let_def exampleUrn_def exampleSpec_def exampleRequest_def Request_def
      mavenTool_def)

text \<open>
  Claim C5, amended. \<open>addBasicToolLinks\<close> adds two links to the request, in this order: the
  resource link \<open>self\<close> to the URN of the identity overlaid with the tool name and tool
  version of the handler, and the siblings link to the URN of the identity with its tool
  version cleared and its tool name kept, or taken from the handler where the identity has
  none. Every other field of the identity, the revision among them, is kept.
\<close>

theorem addBasicToolLinks_links:
  "links (addBasicToolLinks toUrn fromUrl ts req spec) =
     links req @
       [Resource ''self''
          (toUrn (spec\<lparr>tool := Some (toolName ts), toolVersion := Some (toolRelease ts)\<rparr>)),
        Siblings
          (toUrn (spec\<lparr>tool := (if truthy (tool spec) then tool spec else Some (toolName ts)),
                       toolVersion := None\<rparr>))]"
  by (cases spec)
     (simp add: addBasicToolLinks_def getUrnFor_def linkResource_def linkSiblings_def
        EntitySpec_def Let_def)

subsection \<open>Attachments\<close>

lemma attachFile_result:
  assumes "attachFile sha256 pathJoin fs location doc file = Inr doc'"
    and "stashed doc = Some xs" and "attachments doc = Some ys"
  shows "\<exists>content. fs (pathJoin location file) = Some content \<and>
     stashed doc' = Some (xs @ [\<lparr>path = file, token = computeToken sha256 content,
                                 attachment = content\<rparr>]) \<and>
     attachments doc' = Some (ys @ [\<lparr>path = file, token = computeToken sha256 content\<rparr>])"
  using assms by (auto simp: attachFile_def Let_def split: option.splits)

lemma forEachFile_keeps_tokens:
  assumes "forEachFile (attachFile sha256 pathJoin fs location) doc files = Inr doc'"
    and "stashed doc = Some xs" and "attachments doc = Some ys"
    and "list_all (\<lambda>a. token a = computeToken sha256 (attachment a)) xs"
  shows "\<exists>xs'. stashed doc' = Some xs' \<and>
     list_all (\<lambda>a. token a = computeToken sha256 (attachment a)) xs'"
  using assms
proof (induction files arbitrary: doc xs ys)
  case Nil
  then show ?case by simp
next
  case (Cons f fs')
  from Cons.prems(1) obtain mid where
    m: "attachFile sha256 pathJoin fs location doc f = Inr mid"
    and r: "forEachFile (attachFile sha256 pathJoin fs location) mid fs' = Inr doc'"
    by (auto split: sum.splits)
  from attachFile_result[OF m Cons.prems(2,3)] obtain content where
    s: "stashed mid = Some (xs @ [\<lparr>path = f, token = computeToken sha256 content,
                                   attachment = content\<rparr>])"
    and a: "attachments mid = Some (ys @ [\<lparr>path = f, token = computeToken sha256 content\<rparr>])"
    by auto
  show ?case
    by (rule Cons.IH[OF r s a]) (simp add: Cons.prems(4))
qed

lemma attachFiles_keeps_tokens:
  assumes "attachFiles sha256 pathJoin fs doc files location = Inr doc'"
    and "tokensOfContent sha256 doc"
  shows "tokensOfContent sha256 doc'"
proof (cases "files = None \<or> files = Some []")
  case True
  then have "doc' = doc" using assms(1) by (auto simp: attachFiles_def)
  then show ?thesis using assms(2) by simp
next
  case False
  then obtain fileList where f: "files = Some fileList" "fileList \<noteq> []" by auto
  define doc1 where "doc1 = (if stashed doc = None then doc\<lparr>stashed := Some []\<rparr> else doc)"
  define doc2 where "doc2 = doc1\<lparr>attachments :=
      (if attachments doc1 = None then Some [] else attachments doc1)\<rparr>"
  have run: "forEachFile (attachFile sha256 pathJoin fs location) doc2 fileList = Inr doc'"
    using assms(1) unfolding f(1) attachFiles_def Let_def doc2_def doc1_def
    by (simp only: option.case f(2) if_False)
  have s: "stashed doc2 = Some (stashedOf doc)"
    by (simp add: doc2_def doc1_def stashedOf_def split: option.splits)
  obtain ys where a: "attachments doc2 = Some ys"
    by (cases "attachments doc1") (simp_all add: doc2_def)
  have "list_all (\<lambda>a. token a = computeToken sha256 (attachment a)) (stashedOf doc)"
    using assms(2) by (simp add: tokensOfContent_def)
  from forEachFile_keeps_tokens[OF run s a this]
  show ?thesis by (auto simp: tokensOfContent_def stashedOf_def)
qed

text \<open>
  Claim C7. Every record \<open>attachFiles\<close> stashes carries the token of its own content, so two
  records with the same content carry the same token, whatever their paths, their
  documents, their folders and the file systems they were read from. In particular the
  same content under two paths gives two records with one token, in the hidden list and in
  the public one.
\<close>

theorem attachFiles_same_content_same_token:
  "(tokensOfContent sha256 docA \<and> tokensOfContent sha256 docB \<and>
    attachFiles sha256 joinA fsA docA filesA locationA = Inr docA' \<and>
    attachFiles sha256 joinB fsB docB filesB locationB = Inr docB' \<and>
    a \<in> set (stashedOf docA') \<and> b \<in> set (stashedOf docB') \<and> attachment a = attachment b
      \<longrightarrow> token a = token b) \<and>
   (fs (pathJoin location p) = Some content \<and> fs (pathJoin location q) = Some content
      \<longrightarrow> attachFiles sha256 pathJoin fs emptyDocument (Some [p, q]) location =
            Inr \<lparr>stashed = Some [\<lparr>path = p, token = computeToken sha256 content, attachment = content\<rparr>,
                                \<lparr>path = q, token = computeToken sha256 content, attachment = content\<rparr>],
                 attachments = Some [\<lparr>path = p, token = computeToken sha256 content\<rparr>,
                                    \<lparr>path = q, token = computeToken sha256 content\<rparr>]\<rparr>)"
proof (intro conjI impI)
  assume h: "tokensOfContent sha256 docA \<and> tokensOfContent sha256 docB \<and>
    attachFiles sha256 joinA fsA docA filesA locationA = Inr docA' \<and>
    attachFiles sha256 joinB fsB docB filesB locationB = Inr docB' \<and>
    a \<in> set (stashedOf docA') \<and> b \<in> set (stashedOf docB') \<and> attachment a = attachment b"
  then have "tokensOfContent sha256 docA'" "tokensOfContent sha256 docB'"
    using attachFiles_keeps_tokens by blast+
  then have "token a = computeToken sha256 (attachment a)"
    "token b = computeToken sha256 (attachment b)"
    using h by (simp_all add: tokensOfContent_def list_all_iff)
  then show "token a = token b" using h by simp
next
  assume "fs (pathJoin location p) = Some content \<and> fs (pathJoin location q) = Some content"
  then show "attachFiles sha256 pathJoin fs emptyDocument (Some [p, q]) location =
            Inr \<lparr>stashed = Some [\<lparr>path = p, token = computeToken sha256 content, attachment = content\<rparr>,
                                \<lparr>path = q, token = computeToken sha256 content, attachment = content\<rparr>],
                 attachments = Some [\<lparr>path = p, token = computeToken sha256 content\<rparr>,
                                    \<lparr>path = q, token = computeToken sha256 content\<rparr>]\<rparr>"
    by (simp add: attachFiles_def attachFile_def emptyDocument_def Let_def)
qed

theorem attachFiles_same_content_same_token_witness:
  "attachFiles rev joinPath licenseFiles emptyDocument (Some [''LICENSE'', ''COPYING'']) ''/pkg'' =
     Inr \<lparr>stashed = Some [\<lparr>path = ''LICENSE'', token = ''esneciL TIM'', attachment = ''MIT License''\<rparr>,
                         \<lparr>path = ''COPYING'', token = ''esneciL TIM'', attachment = ''MIT License''\<rparr>],
          attachments = Some [\<lparr>path = ''LICENSE'', token = ''esneciL TIM''\<rparr>,
                             \<lparr>path = ''COPYING'', token = ''esneciL TIM''\<rparr>]\<rparr> \<and>
   token \<lparr>path = ''LICENSE'', token = ''esneciL TIM'', attachment = ''MIT License''\<rparr> =
   token \<lparr>path = ''COPYING'', token = ''esneciL TIM'', attachment = ''MIT License''\<rparr>"
proof -
  have f: "licenseFiles (joinPath ''/pkg'' ''LICENSE'') = Some ''MIT License'' \<and>
      licenseFiles (joinPath ''/pkg'' ''COPYING'') = Some ''MIT License''"
    by (simp add: licenseFiles_def joinPath_def)
  have e: "tokensOfContent rev emptyDocument"
    by (simp add: tokensOfContent_def stashedOf_def emptyDocument_def)
  note t = attachFiles_same_content_same_token[of rev emptyDocument emptyDocument joinPath licenseFiles
      "Some [''LICENSE'', ''COPYING'']" "''/pkg''" _ joinPath licenseFiles
      "Some [''LICENSE'', ''COPYING'']" "''/pkg''" _
      "\<lparr>path = ''LICENSE'', token = ''esneciL TIM'', attachment = ''MIT License''\<rparr>"
      "\<lparr>path = ''COPYING'', token = ''esneciL TIM'', attachment = ''MIT License''\<rparr>"
      licenseFiles joinPath "''/pkg''" "''LICENSE''" "''MIT License''" "''COPYING''"]
  from t f have r: "attachFiles rev joinPath licenseFiles emptyDocument (Some [''LICENSE'', ''COPYING'']) ''/pkg'' =
     Inr \<lparr>stashed = Some [\<lparr>path = ''LICENSE'', token = ''esneciL TIM'', attachment = ''MIT License''\<rparr>,
                         \<lparr>path = ''COPYING'', token = ''esneciL TIM'', attachment = ''MIT License''\<rparr>],
          attachments = Some [\<lparr>path = ''LICENSE'', token = ''esneciL TIM''\<rparr>,
                             \<lparr>path = ''COPYING'', token = ''esneciL TIM''\<rparr>]\<rparr>"
    by (simp add: computeToken_def)
  have "token \<lparr>path = ''LICENSE'', token = ''esneciL TIM'', attachment = ''MIT License''\<rparr> =
   token \<lparr>path = ''COPYING'', token = ''esneciL TIM'', attachment = ''MIT License''\<rparr>"
    using t[THEN conjunct1, rule_format] e r by (simp add: stashedOf_def)
  with r show ?thesis by simp
qed

section \<open>Manifest resolution: results\<close>

lemma strip_has_project: "strip raw = Inr p \<Longrightarrow> \<exists>f. p = \<lparr>project = Some f\<rparr>"
  by (auto simp: strip_def split: option.splits)

lemma inherited_single: "inherited [\<lparr>project = Some f\<rparr>] = f"
  by (rule ext) (simp split: option.splits)

lemma inherited_override: "inherited (\<lparr>project = Some f\<rparr> # ps) = inherited ps ++ f"
  by (rule ext) (simp add: map_add_def split: option.splits)

lemma getManifest_root:
  assumes "disk w loc = Some content" and "parseString (trim content) = Some raw"
    and "strip raw = Inr p" and "\<not> hasParent p"
  shows "getManifest parseString fetchPom (Suc n) w loc = Some (Inr \<lparr>summary = p, poms = [p]\<rparr>, w)"
  using assms by simp

lemma getManifest_orphan:
  assumes "disk w loc = Some content" and "parseString (trim content) = Some raw"
    and "strip raw = Inr p" and "hasParent p"
    and "parentSpec p = Inr spec" and "fetchPom spec = NotFound"
  shows "getManifest parseString fetchPom (Suc n) w loc =
     Some (Inr \<lparr>summary = p, poms = [p]\<rparr>, snd (createTempFile w))"
proof -
  from assms(3) obtain f where p: "p = \<lparr>project = Some f\<rparr>"
    using strip_has_project by blast
  have "fetchParentPomManifest parseString fetchPom n w p =
      Some (Inr \<lparr>summary = \<lparr>project = None\<rparr>, poms = []\<rparr>, snd (createTempFile w))"
    using assms(5,6) by (simp add: createTempFile_def)
  then show ?thesis
    using assms(1-4) by (simp add: mergePomInto_def assign_def p)
qed

lemma getManifest_child:
  assumes "disk w loc = Some content" and "parseString (trim content) = Some raw"
    and "strip raw = Inr p" and "hasParent p"
    and "parentSpec p = Inr spec" and "fetchPom spec = Body body"
    and "getManifest parseString fetchPom n
           ((snd (createTempFile w))\<lparr>disk := (disk w)(fst (createTempFile w) \<mapsto> body)\<rparr>)
           (fst (createTempFile w)) = Some (Inr m, w')"
  shows "getManifest parseString fetchPom (Suc n) w loc = Some (Inr (mergePomInto p m), w')"
proof -
  have "fetchParentPomManifest parseString fetchPom n w p = Some (Inr m, w')"
    using assms(5-7) by (simp add: createTempFile_def)
  then show ?thesis using assms(1-4) by simp
qed

lemma getManifest_ancestry:
  assumes "ancestry parseString fetchPom p ps"
  shows "disk w loc = Some content \<Longrightarrow> parseString (trim content) = Some raw \<Longrightarrow>
     strip raw = Inr p \<Longrightarrow> length ps \<le> n \<Longrightarrow>
     \<exists>w'. getManifest parseString fetchPom n w loc =
       Some (Inr \<lparr>summary = \<lparr>project = Some (inherited ps)\<rparr>, poms = ps\<rparr>, w')"
  using assms
proof (induction arbitrary: w loc content raw n)
  case (root p)
  from root.prems(3) obtain f where p: "p = \<lparr>project = Some f\<rparr>"
    using strip_has_project by blast
  from root.prems(4) obtain k where n: "n = Suc k" by (cases n) simp_all
  have "getManifest parseString fetchPom (Suc k) w loc = Some (Inr \<lparr>summary = p, poms = [p]\<rparr>, w)"
    using root.prems(1-3) root.hyps by (rule getManifest_root)
  then show ?case unfolding n p inherited_single by blast
next
  case (orphan p spec)
  from orphan.prems(3) obtain f where p: "p = \<lparr>project = Some f\<rparr>"
    using strip_has_project by blast
  from orphan.prems(4) obtain k where n: "n = Suc k" by (cases n) simp_all
  have "getManifest parseString fetchPom (Suc k) w loc =
     Some (Inr \<lparr>summary = p, poms = [p]\<rparr>, snd (createTempFile w))"
    using orphan.prems(1-3) orphan.hyps by (rule getManifest_orphan)
  then show ?case unfolding n p inherited_single by blast
next
  case (child p spec body raw' q ps)
  from child.prems(3) obtain f where p: "p = \<lparr>project = Some f\<rparr>"
    using strip_has_project by blast
  from child.prems(4) obtain k where n: "n = Suc k" and k: "length ps \<le> k"
    by (cases n) simp_all
  define w1 where "w1 = (snd (createTempFile w))\<lparr>disk := (disk w)(fst (createTempFile w) \<mapsto> body)\<rparr>"
  have "disk w1 (fst (createTempFile w)) = Some body" by (simp add: w1_def)
  from child.IH[OF this child.hyps(4,5) k] obtain w' where
    "getManifest parseString fetchPom k w1 (fst (createTempFile w)) =
       Some (Inr \<lparr>summary = \<lparr>project = Some (inherited ps)\<rparr>, poms = ps\<rparr>, w')"
    by blast
  then have step: "getManifest parseString fetchPom (Suc k) w loc =
      Some (Inr (mergePomInto p \<lparr>summary = \<lparr>project = Some (inherited ps)\<rparr>, poms = ps\<rparr>), w')"
    unfolding w1_def
    by (rule getManifest_child[where parseString = parseString and fetchPom = fetchPom,
          OF child.prems(1-3) child.hyps(1-3)])
  have merged: "mergePomInto p \<lparr>summary = \<lparr>project = Some (inherited ps)\<rparr>, poms = ps\<rparr> =
      \<lparr>summary = \<lparr>project = Some (inherited (p # ps))\<rparr>, poms = p # ps\<rparr>"
    unfolding p inherited_override by (simp add: mergePomInto_def assign_def)
  show ?case unfolding n step merged by blast
qed

lemma example_facts:
  shows "strip childRaw = Inr childPom" and "strip parentRaw = Inr parentPom"
    and "hasParent childPom" and "\<not> hasParent parentPom"
    and "parentSpec childPom =
      Inr (EntitySpec ''maven'' ''mavencentral'' (Some ''org.example'') ''base'' (Some ''1.0'') None)"
  by (simp_all add: strip_def childRaw_def parentRaw_def childPom_def parentPom_def hasParent_def
      stripFields_def parentSpec_def trimmedField_def trim_def isWhiteSpace_def)

text \<open>
  Claim C3. For a descriptor with a chain of resolvable ancestors, resolution returns, given
  at least as many calls as the chain is long. The fragment list is the chain, the
  component's own stripped descriptor first and each parent after its child, and the fields
  of the summary are the override merge of the fragments read from the left: a field has the
  value of the most specific fragment that has it.
\<close>

theorem getManifest_fragments_and_summary:
  assumes "disk w loc = Some content"
    and "parseString (trim content) = Some raw"
    and "strip raw = Inr p"
    and "ancestry parseString fetchPom p ps"
    and "length ps \<le> n"
  shows "\<exists>m w'. getManifest parseString fetchPom n w loc = Some (Inr m, w') \<and>
     poms m = ps \<and> poms m ! 0 = p \<and> project (summary m) = Some (inherited (poms m))"
proof -
  from getManifest_ancestry[OF assms(4,1,2,3,5)] obtain w' where
    "getManifest parseString fetchPom n w loc =
       Some (Inr \<lparr>summary = \<lparr>project = Some (inherited ps)\<rparr>, poms = ps\<rparr>, w')"
    by blast
  moreover have "ps ! 0 = p" using assms(4) by (cases rule: ancestry.cases) simp_all
  ultimately show ?thesis by simp
qed

theorem getManifest_fragments_and_summary_witness:
  "\<exists>m w'. getManifest exampleParse exampleRegistry 2 exampleWorld (Path ''pom.xml'') = Some (Inr m, w') \<and>
     poms m = [childPom, parentPom] \<and> poms m ! 0 = childPom \<and>
     project (summary m) = Some (inherited (poms m))"
proof -
  have f: "disk exampleWorld (Path ''pom.xml'') = Some ''<child/>''"
    by (simp add: exampleWorld_def)
  have c: "exampleParse (trim ''<child/>'') = Some childRaw"
    by (simp add: exampleParse_def trim_def isWhiteSpace_def)
  have b: "exampleParse (trim ''<base/> '') = Some parentRaw"
    by (simp add: exampleParse_def trim_def isWhiteSpace_def)
  have r: "exampleRegistry
      (EntitySpec ''maven'' ''mavencentral'' (Some ''org.example'') ''base'' (Some ''1.0'') None) =
      Body ''<base/> ''"
    by (simp add: exampleRegistry_def EntitySpec_def)
  have "ancestry exampleParse exampleRegistry parentPom [parentPom]"
    by (rule ancestry.root) (rule example_facts(4))
  then have a: "ancestry exampleParse exampleRegistry childPom [childPom, parentPom]"
    by (rule ancestry.child[where parseString = exampleParse and fetchPom = exampleRegistry,
          OF example_facts(3) example_facts(5) r b example_facts(2)])
  have l: "length [childPom, parentPom] \<le> 2" by simp
  show ?thesis
    by (rule getManifest_fragments_and_summary[where parseString = exampleParse
          and fetchPom = exampleRegistry, OF f c example_facts(1) a l])
qed

text \<open>
  Claim C4. When the registry reports 404 for the parent a descriptor declares,
  \<open>_fetchParentPomManifest\<close> returns the empty manifest without another call of
  \<open>_getManifest\<close>, and the resolution returns with the child's own stripped descriptor as the
  summary and as the only fragment.
\<close>

theorem getManifest_parent_not_found:
  assumes "disk w loc = Some content"
    and "parseString (trim content) = Some raw"
    and "strip raw = Inr p"
    and "hasParent p"
    and "parentSpec p = Inr spec"
    and "fetchPom spec = NotFound"
  shows "(\<exists>w'. fetchParentPomManifest parseString fetchPom n w p =
            Some (Inr \<lparr>summary = \<lparr>project = None\<rparr>, poms = []\<rparr>, w')) \<and>
         (\<exists>w'. getManifest parseString fetchPom (Suc n) w loc =
            Some (Inr \<lparr>summary = p, poms = [p]\<rparr>, w')) \<and>
         length (poms \<lparr>summary = p, poms = [p]\<rparr>) = 1"
proof (intro conjI)
  show "\<exists>w'. fetchParentPomManifest parseString fetchPom n w p =
            Some (Inr \<lparr>summary = \<lparr>project = None\<rparr>, poms = []\<rparr>, w')"
    using assms(5,6) by (simp add: createTempFile_def)
  show "\<exists>w'. getManifest parseString fetchPom (Suc n) w loc =
            Some (Inr \<lparr>summary = p, poms = [p]\<rparr>, w')"
    using getManifest_orphan[where parseString = parseString and fetchPom = fetchPom, OF assms]
    by blast
  show "length (poms \<lparr>summary = p, poms = [p]\<rparr>) = 1" by simp
qed

theorem getManifest_parent_not_found_witness:
  "\<exists>w'. getManifest exampleParse emptyRegistry 1 exampleWorld (Path ''pom.xml'') =
     Some (Inr \<lparr>summary = childPom, poms = [childPom]\<rparr>, w')"
proof -
  have f: "disk exampleWorld (Path ''pom.xml'') = Some ''<child/>''"
    by (simp add: exampleWorld_def)
  have c: "exampleParse (trim ''<child/>'') = Some childRaw"
    by (simp add: exampleParse_def trim_def isWhiteSpace_def)
  have r: "emptyRegistry
      (EntitySpec ''maven'' ''mavencentral'' (Some ''org.example'') ''base'' (Some ''1.0'') None) =
      NotFound"
    by (simp add: emptyRegistry_def)
  from getManifest_parent_not_found[where parseString = exampleParse and fetchPom = emptyRegistry
      and n = 0, OF f c example_facts(1) example_facts(3) example_facts(5) r]
  show ?thesis by simp
qed

end
